theory Spec2Isabelle
  imports Complex_Main "HOL-Library.Sublist"
begin

section \<open>Data model\<close>

text \<open>
  The extension keeps all durable data in \<^verbatim>\<open>chrome.storage.local\<close>. Timestamps are the
  millisecond values of \<^verbatim>\<open>Date.now()\<close>, modelled as \<open>int\<close>. Strings are lists of
  characters; the text handled here is taken to be ASCII.

  A pending block is the object \<^verbatim>\<open>{start, end}\<close> written by \<^verbatim>\<open>triggerInterrupt\<close>; a time
  block is the object \<^verbatim>\<open>{start, end, label, note, dailyPriority}\<close> built by the submit
  handler of the tagging screen. The fields \<^verbatim>\<open>start\<close> and \<^verbatim>\<open>end\<close> carry a prefix here
  because \<^verbatim>\<open>end\<close> is reserved.
\<close>

record pending_block =
  pb_start :: int
  pb_end :: int

record time_block =
  tb_start :: int
  tb_end :: int
  tb_label :: string
  tb_note :: "string option"
  tb_dailyPriority :: "string option"

text \<open>
  The state shared by the service worker and the popup. The first eight fields are the keys
  of \<^verbatim>\<open>chrome.storage.local\<close> (a missing key and \<^verbatim>\<open>null\<close> are both \<open>None\<close>, a missing
  \<^verbatim>\<open>timeBlocks\<close> list is \<open>[]\<close>, a missing flag is \<open>False\<close>); \<open>alarm\<close> is the
  \<^verbatim>\<open>when\<close> of the one alarm named \<^verbatim>\<open>timeTrackerInterrupt\<close> if it exists, \<open>badgeText\<close>
  the badge of the extension icon, and \<open>notification\<close> tells whether the notification
  \<^verbatim>\<open>timeBlockInterrupt\<close> is on screen. The type \<open>'day\<close> stands for the strings returned by
  \<^verbatim>\<open>Date.prototype.toDateString\<close>, the keys of the daily priorities.
\<close>

record 'day state =
  timeBlocks :: "time_block list"
  dailyPriority :: "'day \<rightharpoonup> string"
  pendingBlock :: "pending_block option"
  timerStart :: "int option"
  isRunning :: bool
  customLabels :: "string list option"
  currentDay :: "'day option"
  needsPriority :: bool
  alarm :: "int option"
  badgeText :: string
  notification :: bool

text \<open>
  The memory of one popup page: the module variables \<^verbatim>\<open>selectedLabel\<close> and
  \<^verbatim>\<open>pendingBlock\<close> of \<^verbatim>\<open>popup.js\<close>, and the array \<^verbatim>\<open>DEFAULT_LABELS\<close>, which
  \<^verbatim>\<open>getLabels\<close> hands out by reference when no custom labels are stored.
\<close>

record popup =
  selectedLabel :: "string option"
  popup_pendingBlock :: "pending_block option"
  DEFAULT_LABELS :: "string list"

definition initial_DEFAULT_LABELS :: "string list" where
  "initial_DEFAULT_LABELS = [''Work'', ''Meetings'', ''Break'', ''Planning'', ''Other'']"

definition NOTE_CHAR_LIMIT :: nat where
  "NOTE_CHAR_LIMIT = 100"

definition INTERRUPT_INTERVAL :: int where
  "INTERRUPT_INTERVAL = 15 * 60 * 1000"

datatype js_error = TypeError

section \<open>Timer and interrupt engine (service worker)\<close>

text \<open>
  JavaScript truthiness of a stored timestamp: \<^verbatim>\<open>null\<close>, \<^verbatim>\<open>undefined\<close> and \<^verbatim>\<open>0\<close> are
  falsy.
\<close>

definition truthy :: "int option \<Rightarrow> bool" where
  "truthy v = (case v of None \<Rightarrow> False | Some t \<Rightarrow> t \<noteq> 0)"

text \<open>
  \<^verbatim>\<open>scheduleNextInterrupt(targetTime)\<close> clears the alarm and creates it again with
  \<^verbatim>\<open>when: targetTime\<close>.
\<close>

definition scheduleNextInterrupt :: "int \<Rightarrow> 'day state \<Rightarrow> 'day state" where
  "scheduleNextInterrupt targetTime s = s\<lparr>alarm := Some targetTime\<rparr>"

text \<open>
  \<^verbatim>\<open>triggerInterrupt()\<close>. Each call of \<^verbatim>\<open>Date.now()\<close> is a reading of the clock of its
  own: \<open>nowS\<close> is the reading in \<^verbatim>\<open>result.timerStart || Date.now()\<close> (taken only when the
  stored value is falsy) and \<open>nowE\<close> the reading for \<^verbatim>\<open>blockEnd\<close>. The function then sets
  the badge and raises the notification.
\<close>

definition triggerInterrupt :: "int \<Rightarrow> int \<Rightarrow> 'day state \<Rightarrow> 'day state" where
  "triggerInterrupt nowS nowE s =
     (let blockStart = (case timerStart s of
                          None \<Rightarrow> nowS
                        | Some t \<Rightarrow> if t \<noteq> 0 then t else nowS);
          blockEnd = nowE
      in s\<lparr>pendingBlock := Some \<lparr>pb_start = blockStart, pb_end = blockEnd\<rparr>,
           badgeText := ''!'',
           notification := True\<rparr>)"

text \<open>
  \<^verbatim>\<open>checkTimerState()\<close>. \<open>now1\<close> is the clock reading for \<^verbatim>\<open>elapsed\<close>, \<open>now2\<close> the
  reading in \<^verbatim>\<open>scheduleNextInterrupt(Date.now() + remaining)\<close>; \<open>nowS\<close> and \<open>nowE\<close> are
  the readings of the nested \<^verbatim>\<open>triggerInterrupt()\<close>.
\<close>

definition checkTimerState :: "int \<Rightarrow> int \<Rightarrow> int \<Rightarrow> int \<Rightarrow> 'day state \<Rightarrow> 'day state" where
  "checkTimerState now1 now2 nowS nowE s =
     (if \<not> isRunning s then s
      else if pendingBlock s \<noteq> None then s
      else (case timerStart s of
              None \<Rightarrow> s
            | Some t \<Rightarrow>
                if t = 0 then s
                else (let elapsed = now1 - t in
                      if elapsed \<ge> INTERRUPT_INTERVAL then triggerInterrupt nowS nowE s
                      else (let remaining = INTERRUPT_INTERVAL - elapsed in
                            scheduleNextInterrupt (now2 + remaining) s))))"

text \<open>
  The listener of \<^verbatim>\<open>chrome.alarms.onAlarm\<close>. The alarm is created with \<^verbatim>\<open>when\<close> only,
  so it fires once and is gone afterwards.
\<close>

definition onAlarm :: "int \<Rightarrow> int \<Rightarrow> 'day state \<Rightarrow> 'day state" where
  "onAlarm nowS nowE s = triggerInterrupt nowS nowE (s\<lparr>alarm := None\<rparr>)"

text \<open>\<^verbatim>\<open>updateBadge()\<close> and \<^verbatim>\<open>ensureNotificationExists()\<close>.\<close>

definition updateBadge :: "'day state \<Rightarrow> 'day state" where
  "updateBadge s = (if pendingBlock s \<noteq> None then s\<lparr>badgeText := ''!''\<rparr> else s\<lparr>badgeText := []\<rparr>)"

definition ensureNotificationExists :: "'day state \<Rightarrow> 'day state" where
  "ensureNotificationExists s =
     (if pendingBlock s \<noteq> None \<and> \<not> notification s then s\<lparr>notification := True\<rparr> else s)"

text \<open>
  \<^verbatim>\<open>checkDailyPriority()\<close>; \<open>today\<close> is \<^verbatim>\<open>new Date().toDateString()\<close>. A stored priority
  that is the empty string is falsy.
\<close>

definition falsy_string :: "string option \<Rightarrow> bool" where
  "falsy_string v = (case v of None \<Rightarrow> True | Some p \<Rightarrow> p = [])"

definition checkDailyPriority :: "'day \<Rightarrow> 'day state \<Rightarrow> 'day state" where
  "checkDailyPriority today s =
     (if currentDay s \<noteq> Some today
      then (let s1 = s\<lparr>currentDay := Some today\<rparr> in
            if falsy_string (dailyPriority s1 today) then s1\<lparr>needsPriority := True\<rparr> else s1)
      else s)"

text \<open>\<^verbatim>\<open>initialize()\<close>: the daily-priority check, then the timer-state check.\<close>

definition initialize :: "'day \<Rightarrow> int \<Rightarrow> int \<Rightarrow> int \<Rightarrow> int \<Rightarrow> 'day state \<Rightarrow> 'day state" where
  "initialize today now1 now2 nowS nowE s =
     checkTimerState now1 now2 nowS nowE (checkDailyPriority today s)"

text \<open>The message handlers of \<^verbatim>\<open>chrome.runtime.onMessage\<close>, one per \<^verbatim>\<open>request.action\<close>.\<close>

definition msg_startTimer :: "int \<Rightarrow> 'day state \<Rightarrow> 'day state" where
  "msg_startTimer now s =
     scheduleNextInterrupt (now + INTERRUPT_INTERVAL) (s\<lparr>timerStart := Some now, isRunning := True\<rparr>)"

definition msg_stopTimer :: "'day state \<Rightarrow> 'day state" where
  "msg_stopTimer s = (s\<lparr>alarm := None\<rparr>)\<lparr>isRunning := False, timerStart := None\<rparr>"

definition msg_scheduleNextInterrupt :: "int \<Rightarrow> 'day state \<Rightarrow> 'day state" where
  "msg_scheduleNextInterrupt now s =
     (if isRunning s
      then (scheduleNextInterrupt (now + INTERRUPT_INTERVAL) (s\<lparr>timerStart := Some now\<rparr>))\<lparr>badgeText := []\<rparr>
      else s)"

definition msg_clearPendingBlock :: "'day state \<Rightarrow> 'day state" where
  "msg_clearPendingBlock s =
     updateBadge ((s\<lparr>pendingBlock := None\<rparr>)\<lparr>badgeText := [], notification := False\<rparr>)"

section \<open>Storage helpers and the popup\<close>

text \<open>
  \<^verbatim>\<open>getLabels()\<close> returns the stored array, or the array \<^verbatim>\<open>DEFAULT_LABELS\<close> itself when
  the key is missing; \<^verbatim>\<open>saveLabels(labels)\<close> writes the key \<^verbatim>\<open>customLabels\<close> and nothing
  else.
\<close>

definition getLabels :: "popup \<Rightarrow> 'day state \<Rightarrow> string list" where
  "getLabels pm s = (case customLabels s of None \<Rightarrow> DEFAULT_LABELS pm | Some ls \<Rightarrow> ls)"

definition saveLabels :: "string list \<Rightarrow> 'day state \<Rightarrow> 'day state" where
  "saveLabels labels s = s\<lparr>customLabels := Some labels\<rparr>"

text \<open>
  An in-place change of the array returned by \<^verbatim>\<open>getLabels()\<close> changes
  \<^verbatim>\<open>DEFAULT_LABELS\<close> when that is the array handed out.
\<close>

definition mutateLabels :: "string list \<Rightarrow> popup \<Rightarrow> 'day state \<Rightarrow> popup" where
  "mutateLabels labels' pm s =
     (case customLabels s of None \<Rightarrow> pm\<lparr>DEFAULT_LABELS := labels'\<rparr> | Some ls \<Rightarrow> pm)"

text \<open>\<^verbatim>\<open>getTimeBlocks()\<close> and \<^verbatim>\<open>saveTimeBlock(timeBlock)\<close>: read the list, push, write it back.\<close>

definition getTimeBlocks :: "'day state \<Rightarrow> time_block list" where
  "getTimeBlocks s = timeBlocks s"

definition saveTimeBlock :: "time_block \<Rightarrow> 'day state \<Rightarrow> 'day state" where
  "saveTimeBlock timeBlock s = (let blocks = getTimeBlocks s in s\<lparr>timeBlocks := blocks @ [timeBlock]\<rparr>)"

text \<open>
  \<^verbatim>\<open>getTodayPriority()\<close> is \<^verbatim>\<open>priorities[today] || null\<close> and \<^verbatim>\<open>setTodayPriority\<close>
  overwrites the entry of today; \<open>today\<close> is \<^verbatim>\<open>new Date().toDateString()\<close>.
\<close>

definition getTodayPriority :: "'day \<Rightarrow> 'day state \<Rightarrow> string option" where
  "getTodayPriority today s =
     (if falsy_string (dailyPriority s today) then None else dailyPriority s today)"

definition setTodayPriority :: "'day \<Rightarrow> string \<Rightarrow> 'day state \<Rightarrow> 'day state" where
  "setTodayPriority today priority s = s\<lparr>dailyPriority := (dailyPriority s)(today \<mapsto> priority)\<rparr>"

text \<open>\<^verbatim>\<open>String.prototype.trim\<close> on ASCII text: tab, line feed, vertical tab, form feed,
  carriage return and space are removed at both ends.\<close>

definition isSpace :: "char \<Rightarrow> bool" where
  "isSpace c = (c \<in> set [CHR 0x09, CHR 0x0A, CHR 0x0B, CHR 0x0C, CHR 0x0D, CHR 0x20])"

definition trim :: "string \<Rightarrow> string" where
  "trim v = rev (dropWhile isSpace (rev (dropWhile isSpace v)))"

text \<open>
  \<^verbatim>\<open>initializePopup()\<close> copies the stored pending block into the variable of the popup
  and sets the badge. A popup page starts with no selected label and the five default
  labels.
\<close>

definition fresh_popup :: popup where
  "fresh_popup = \<lparr>selectedLabel = None, popup_pendingBlock = None,
                   DEFAULT_LABELS = initial_DEFAULT_LABELS\<rparr>"

definition initializePopup :: "popup \<Rightarrow> 'day state \<Rightarrow> popup \<times> 'day state" where
  "initializePopup pm s =
     (pm\<lparr>popup_pendingBlock := pendingBlock s\<rparr>,
      (if pendingBlock s \<noteq> None then s\<lparr>badgeText := ''!''\<rparr> else s\<lparr>badgeText := []\<rparr>))"

text \<open>
  The submit handler of the priority prompt (\<^verbatim>\<open>submitBtn.onclick\<close> in
  \<^verbatim>\<open>showPriorityPrompt\<close>).
\<close>

definition submitPriority :: "string \<Rightarrow> 'day \<Rightarrow> 'day state \<Rightarrow> 'day state" where
  "submitPriority inputValue today s =
     (let priority = trim inputValue in
      if length priority = 0 then s
      else (setTodayPriority today priority s)\<lparr>needsPriority := False\<rparr>)"

text \<open>
  The submit handler of the tagging screen (\<^verbatim>\<open>submitBtn.onclick\<close> in
  \<^verbatim>\<open>showTaggingScreen\<close>). After the two checks it builds the time block from the variable
  \<^verbatim>\<open>pendingBlock\<close> of the popup (reading \<^verbatim>\<open>.start\<close> of \<^verbatim>\<open>null\<close> throws) and then makes
  four effects one after the other, each of them complete before the next begins: the
  write of the block list, the write of \<^verbatim>\<open>pendingBlock: null\<close>, the clearing of badge and
  notification, and the message \<^verbatim>\<open>scheduleNextInterrupt\<close>, which the service worker
  handles with its own clock reading \<open>now\<close>.
\<close>

definition submit_timeBlock :: "pending_block \<Rightarrow> string \<Rightarrow> string \<Rightarrow> string option \<Rightarrow> time_block" where
  "submit_timeBlock pb lbl noteValue todayPriority =
     \<lparr>tb_start = pb_start pb,
      tb_end = pb_end pb,
      tb_label = lbl,
      tb_note = (if trim noteValue = [] then None else Some (trim noteValue)),
      tb_dailyPriority = todayPriority\<rparr>"

definition submit_effects :: "time_block \<Rightarrow> int \<Rightarrow> ('day state \<Rightarrow> 'day state) list" where
  "submit_effects timeBlock now =
     [saveTimeBlock timeBlock,
      (\<lambda>s. s\<lparr>pendingBlock := None\<rparr>),
      (\<lambda>s. s\<lparr>badgeText := [], notification := False\<rparr>),
      msg_scheduleNextInterrupt now]"

definition run_effects :: "('day state \<Rightarrow> 'day state) list \<Rightarrow> 'day state \<Rightarrow> 'day state" where
  "run_effects effs s = foldl (\<lambda>s' eff. eff s') s effs"

datatype 'day submit_result =
    Rejected
  | Throws js_error
  | Submits time_block "('day state \<Rightarrow> 'day state) list"

definition submit_plan :: "popup \<Rightarrow> string \<Rightarrow> 'day \<Rightarrow> int \<Rightarrow> 'day state \<Rightarrow> 'day submit_result" where
  "submit_plan pm noteValue today now s =
     (case selectedLabel pm of
        None \<Rightarrow> Rejected
      | Some lbl \<Rightarrow>
          if lbl = [] then Rejected
          else if length noteValue > NOTE_CHAR_LIMIT then Rejected
          else (let todayPriority = getTodayPriority today s in
                case popup_pendingBlock pm of
                  None \<Rightarrow> Throws TypeError
                | Some pb \<Rightarrow>
                    (let timeBlock = submit_timeBlock pb lbl noteValue todayPriority
                     in Submits timeBlock (submit_effects timeBlock now))))"

text \<open>
  The handler run to its end: a rejected submission (an \<^verbatim>\<open>alert\<close> and \<^verbatim>\<open>return\<close>) leaves
  the state as it is.
\<close>

definition submitLabel :: "popup \<Rightarrow> string \<Rightarrow> 'day \<Rightarrow> int \<Rightarrow> 'day state \<Rightarrow> js_error + 'day state" where
  "submitLabel pm noteValue today now s =
     (case submit_plan pm noteValue today now s of
        Rejected \<Rightarrow> Inr s
      | Throws e \<Rightarrow> Inl e
      | Submits timeBlock effs \<Rightarrow> Inr (run_effects effs s))"

text \<open>
  The state in which a submission leaves the store when the process stops after the first
  \<open>k\<close> effects of the handler.
\<close>

definition submitLabel_after :: "nat \<Rightarrow> popup \<Rightarrow> string \<Rightarrow> 'day \<Rightarrow> int \<Rightarrow> 'day state \<Rightarrow> js_error + 'day state" where
  "submitLabel_after k pm noteValue today now s =
     (case submit_plan pm noteValue today now s of
        Rejected \<Rightarrow> Inr s
      | Throws e \<Rightarrow> Inl e
      | Submits timeBlock effs \<Rightarrow> Inr (run_effects (take k effs) s))"

text \<open>Two submissions in a row from the same popup page.\<close>

definition submitLabel_twice :: "popup \<Rightarrow> string \<Rightarrow> 'day \<Rightarrow> int \<Rightarrow> int \<Rightarrow> 'day state \<Rightarrow> js_error + 'day state" where
  "submitLabel_twice pm noteValue today now now' s =
     (case submitLabel pm noteValue today now s of
        Inl e \<Rightarrow> Inl e
      | Inr s1 \<Rightarrow> submitLabel pm noteValue today now' s1)"

text \<open>
  The settings screen. \<^verbatim>\<open>addLabelBtn.onclick\<close>, the \<^verbatim>\<open>saveHandler\<close> of
  \<^verbatim>\<open>editLabel(index, ..., currentName)\<close> and \<^verbatim>\<open>deleteLabel(index, labelName)\<close> each read
  the labels, change the array in place and call \<^verbatim>\<open>saveLabels\<close>. The assignment
  \<^verbatim>\<open>labels[index] = newName\<close> at an index beyond the array would leave holes in it, which
  a list of strings cannot hold: \<open>editLabel\<close> is \<open>None\<close> there. The rows of the settings
  screen are rendered from the stored list and rendered again after every change, so the
  index of a row is a position of the list.
\<close>

definition addLabel :: "string \<Rightarrow> popup \<Rightarrow> 'day state \<Rightarrow> popup \<times> 'day state" where
  "addLabel inputValue pm s =
     (let labelName = trim inputValue in
      if length labelName = 0 then (pm, s)
      else if length labelName > 50 then (pm, s)
      else (let labels = getLabels pm s in
            if labelName \<in> set labels then (pm, s)
            else (let labels' = labels @ [labelName]
                  in (mutateLabels labels' pm s, saveLabels labels' s))))"

definition editLabel :: "nat \<Rightarrow> string \<Rightarrow> string \<Rightarrow> popup \<Rightarrow> 'day state \<Rightarrow> (popup \<times> 'day state) option" where
  "editLabel index currentName inputValue pm s =
     (let newName = trim inputValue in
      if length newName = 0 then Some (pm, s)
      else if length newName > 50 then Some (pm, s)
      else (let labels = getLabels pm s in
            if newName \<in> set labels \<and> newName \<noteq> currentName then Some (pm, s)
            else if index < length labels
            then (let labels' = labels[index := newName]
                  in Some (mutateLabels labels' pm s, saveLabels labels' s))
            else None))"

definition deleteLabel :: "nat \<Rightarrow> bool \<Rightarrow> popup \<Rightarrow> 'day state \<Rightarrow> popup \<times> 'day state" where
  "deleteLabel index confirmed pm s =
     (if \<not> confirmed then (pm, s)
      else (let labels = getLabels pm s;
                labels' = take index labels @ drop (Suc index) labels;
                pm' = mutateLabels labels' pm s
            in if length labels' = 0 then (pm', saveLabels (DEFAULT_LABELS pm') s)
               else (pm', saveLabels labels' s)))"

section \<open>The extension as a transition system\<close>

text \<open>
  Every handler of the service worker runs to its end before the next event is taken. The
  popup acts on the shared state through single writes (and messages), so each of its
  writes is an event of its own; they are taken with any argument, which covers every
  interleaving of popup pages with the service worker. The clock readings of an event do
  not fall behind the clock and do not decrease within the event. An alarm fires only
  when there is one.
\<close>

datatype 'day event =
    Initialize 'day int int int int
  | PeriodicCheck int int int int
  | UpdateBadge
  | EnsureNotification
  | AlarmFires int int
  | NotificationClicked
  | MsgStartTimer int
  | MsgStopTimer
  | MsgScheduleNextInterrupt int
  | MsgClearPendingBlock
  | PopupOpens
  | PrioritySubmitted string 'day
  | TimeBlockSaved time_block
  | PendingBlockNulled
  | BadgeNotificationCleared
  | LabelsSaved "string list"

fun readings :: "'day event \<Rightarrow> int list" where
  "readings (Initialize today now1 now2 nowS nowE) = [now1, now2, nowS, nowE]"
| "readings (PeriodicCheck now1 now2 nowS nowE) = [now1, now2, nowS, nowE]"
| "readings (AlarmFires nowS nowE) = [nowS, nowE]"
| "readings (MsgStartTimer now) = [now]"
| "readings (MsgScheduleNextInterrupt now) = [now]"
| "readings _ = []"

fun enabled :: "'day event \<Rightarrow> 'day state \<Rightarrow> bool" where
  "enabled (AlarmFires nowS nowE) s = (alarm s \<noteq> None)"
| "enabled _ s = True"

fun fire :: "'day event \<Rightarrow> 'day state \<Rightarrow> 'day state" where
  "fire (Initialize today now1 now2 nowS nowE) s = initialize today now1 now2 nowS nowE s"
| "fire (PeriodicCheck now1 now2 nowS nowE) s = checkTimerState now1 now2 nowS nowE s"
| "fire UpdateBadge s = updateBadge s"
| "fire EnsureNotification s = ensureNotificationExists s"
| "fire (AlarmFires nowS nowE) s = onAlarm nowS nowE s"
| "fire NotificationClicked s = s\<lparr>notification := False\<rparr>"
| "fire (MsgStartTimer now) s = msg_startTimer now s"
| "fire MsgStopTimer s = msg_stopTimer s"
| "fire (MsgScheduleNextInterrupt now) s = msg_scheduleNextInterrupt now s"
| "fire MsgClearPendingBlock s = msg_clearPendingBlock s"
| "fire PopupOpens s = snd (initializePopup fresh_popup s)"
| "fire (PrioritySubmitted inputValue today) s = submitPriority inputValue today s"
| "fire (TimeBlockSaved timeBlock) s = saveTimeBlock timeBlock s"
| "fire PendingBlockNulled s = s\<lparr>pendingBlock := None\<rparr>"
| "fire BadgeNotificationCleared s = s\<lparr>badgeText := [], notification := False\<rparr>"
| "fire (LabelsSaved labels) s = saveLabels labels s"

text \<open>The state of a fresh installation: empty storage, no alarm, no badge, no notification.\<close>

definition installed :: "'day state" where
  "installed = \<lparr>timeBlocks = [], dailyPriority = Map.empty, pendingBlock = None,
                 timerStart = None, isRunning = False, customLabels = None,
                 currentDay = None, needsPriority = False, alarm = None,
                 badgeText = [], notification = False\<rparr>"

inductive reachable :: "'day state \<Rightarrow> int \<Rightarrow> bool" where
  start: "reachable installed clock"
| step: "reachable s clock \<Longrightarrow> enabled ev s \<Longrightarrow> sorted (clock # readings ev)
         \<Longrightarrow> reachable (fire ev s) (last (clock # readings ev))"

section \<open>Insight engine\<close>

subsection \<open>Plain objects used as dictionaries\<close>

text \<open>
  \<^verbatim>\<open>labelCounts\<close>, \<^verbatim>\<open>labelHours\<close> and \<^verbatim>\<open>priorityKeywords\<close> are object literals keyed by
  label names. Such an object is modelled by the list of its own properties in the order
  of their creation. Three facts of the language show in the functions below:
  \<^item> an assignment to the key \<^verbatim>\<open>__proto__\<close> does not create an own property (the value
    is a number, so the assignment has no effect at all);
  \<^item> \<^verbatim>\<open>Object.keys\<close> lists the keys that are array indices first, in ascending numeric
    order, then the other keys in creation order;
  \<^item> a lookup of a key that is not an own property finds the members of
    \<^verbatim>\<open>Object.prototype\<close>.
\<close>

type_synonym 'v js_object = "(string \<times> 'v) list"

definition own :: "'v js_object \<Rightarrow> string \<Rightarrow> 'v option" where
  "own obj k = map_of obj k"

fun put :: "'k \<Rightarrow> 'v \<Rightarrow> ('k \<times> 'v) list \<Rightarrow> ('k \<times> 'v) list" where
  "put k v [] = [(k, v)]"
| "put k v ((k', v') # kvs) = (if k' = k then (k, v) # kvs else (k', v') # put k v kvs)"

definition assign :: "string \<Rightarrow> 'v \<Rightarrow> 'v js_object \<Rightarrow> 'v js_object" where
  "assign k v obj = (if k = ''__proto__'' then obj else put k v obj)"

definition isDigit :: "char \<Rightarrow> bool" where
  "isDigit c = (c \<in> set ''0123456789'')"

definition digitValue :: "char \<Rightarrow> int" where
  "digitValue c = int (length (takeWhile (\<lambda>d. d \<noteq> c) ''0123456789''))"

definition numericValue :: "string \<Rightarrow> int" where
  "numericValue k = foldl (\<lambda>n c. 10 * n + digitValue c) 0 k"

text \<open>An array index is the canonical decimal form of an integer from 0 to \<open>2\<^sup>3\<^sup>2 - 2\<close>.\<close>

definition isArrayIndex :: "string \<Rightarrow> bool" where
  "isArrayIndex k =
     (k \<noteq> [] \<and> list_all isDigit k \<and> (k = ''0'' \<or> hd k \<noteq> CHR ''0'') \<and> numericValue k < 4294967295)"

definition objectKeys :: "'v js_object \<Rightarrow> string list" where
  "objectKeys obj =
     (let ks = map fst obj
      in sort_key numericValue (filter isArrayIndex ks) @ filter (\<lambda>k. \<not> isArrayIndex k) ks)"

definition objectEntries :: "'v js_object \<Rightarrow> (string \<times> 'v) list" where
  "objectEntries obj = List.map_filter (\<lambda>k. map_option (Pair k) (own obj k)) (objectKeys obj)"

text \<open>The names a lookup finds on \<^verbatim>\<open>Object.prototype\<close>; each of them is a truthy value
  without a method \<^verbatim>\<open>some\<close>.\<close>

definition inheritedProperty :: "string \<Rightarrow> bool" where
  "inheritedProperty k =
     (k \<in> set [''constructor'', ''__proto__'', ''hasOwnProperty'', ''isPrototypeOf'',
                ''propertyIsEnumerable'', ''toLocaleString'', ''toString'', ''valueOf'',
                ''__defineGetter__'', ''__defineSetter__'', ''__lookupGetter__'',
                ''__lookupSetter__''])"

subsection \<open>Strings and numbers\<close>

text \<open>
  \<^verbatim>\<open>toLowerCase\<close> and \<^verbatim>\<open>includes\<close> on ASCII text, and \<^verbatim>\<open>toFixed(1)\<close>. Hours are
  multiples of 0.25, which a double holds exactly, so they are rational numbers here;
  \<^verbatim>\<open>toFixed(1)\<close> takes the integer \<open>n\<close> with \<open>n / 10\<close> nearest to the number and the
  larger one of two that are equally near.
\<close>

definition toLower :: "char \<Rightarrow> char" where
  "toLower c =
     (case map_of (zip ''ABCDEFGHIJKLMNOPQRSTUVWXYZ'' ''abcdefghijklmnopqrstuvwxyz'') c of
        None \<Rightarrow> c
      | Some l \<Rightarrow> l)"

definition toLowerCase :: "string \<Rightarrow> string" where
  "toLowerCase v = map toLower v"

fun startsWith :: "string \<Rightarrow> string \<Rightarrow> bool" where
  "startsWith v [] = True"
| "startsWith [] (c # k) = False"
| "startsWith (d # v) (c # k) = (d = c \<and> startsWith v k)"

fun includesStr :: "string \<Rightarrow> string \<Rightarrow> bool" where
  "includesStr [] k = (k = [])"
| "includesStr (d # v) k = (startsWith (d # v) k \<or> includesStr v k)"

definition digitChar :: "nat \<Rightarrow> char" where
  "digitChar n = ''0123456789'' ! n"

fun showNat :: "nat \<Rightarrow> string" where
  "showNat n = (if n < 10 then [digitChar n] else showNat (n div 10) @ [digitChar (n mod 10)])"

declare showNat.simps [simp del]

definition toFixed1 :: "rat \<Rightarrow> string" where
  "toFixed1 x = (let n = nat \<lfloor>x * 10 + 1 / 2\<rfloor> in showNat (n div 10) @ ''.'' @ showNat (n mod 10))"

definition dq :: char where
  "dq = CHR 0x22"

subsection \<open>Counting blocks by label\<close>

text \<open>
  \<^verbatim>\<open>labels.forEach(label => labelCounts[label] = 0)\<close>, then the loop over the blocks. The
  call \<^verbatim>\<open>labelCounts.hasOwnProperty(block.label)\<close> throws once the object has an own
  property of that name, which then holds a number.
\<close>

definition initCounts :: "string list \<Rightarrow> nat js_object" where
  "initCounts labels = foldl (\<lambda>labelCounts label. assign label 0 labelCounts) [] labels"

fun countBlocks :: "time_block list \<Rightarrow> nat js_object \<Rightarrow> js_error + nat js_object" where
  "countBlocks [] labelCounts = Inr labelCounts"
| "countBlocks (block # blocks) labelCounts =
     (if own labelCounts ''hasOwnProperty'' \<noteq> None then Inl TypeError
      else (let labelCounts1 = (if own labelCounts (tb_label block) = None
                                then assign (tb_label block) 0 labelCounts else labelCounts);
                labelCounts2 = (case own labelCounts1 (tb_label block) of
                                  None \<Rightarrow> labelCounts1
                                | Some n \<Rightarrow> assign (tb_label block) (n + 1) labelCounts1)
            in countBlocks blocks labelCounts2))"

text \<open>\<^verbatim>\<open>labelCounts[label]\<close> and \<^verbatim>\<open>labelHours[label]\<close> are read at own keys only.\<close>

definition countOf :: "nat js_object \<Rightarrow> string \<Rightarrow> nat" where
  "countOf labelCounts label = (case own labelCounts label of None \<Rightarrow> 0 | Some n \<Rightarrow> n)"

definition hoursOf :: "rat js_object \<Rightarrow> string \<Rightarrow> rat" where
  "hoursOf labelHours label = (case own labelHours label of None \<Rightarrow> 0 | Some h \<Rightarrow> h)"

definition toHours :: "nat js_object \<Rightarrow> rat js_object" where
  "toHours labelCounts =
     foldl (\<lambda>labelHours label. assign label (of_nat (countOf labelCounts label) * (1 / 4)) labelHours)
       [] (objectKeys labelCounts)"

text \<open>
  \<^verbatim>\<open>Object.keys(labelHours).reduce((a, b) => labelHours[a] > labelHours[b] ? a : b)\<close>:
  without an initial value, \<^verbatim>\<open>reduce\<close> throws on an empty array.
\<close>

definition dominant :: "rat js_object \<Rightarrow> js_error + string" where
  "dominant labelHours =
     (case objectKeys labelHours of
        [] \<Rightarrow> Inl TypeError
      | k # ks \<Rightarrow> Inr (foldl (\<lambda>a b. if hoursOf labelHours a > hoursOf labelHours b then a else b) k ks))"

text \<open>
  The keyword table and the test \<^verbatim>\<open>relevantKeywords.some(keyword =>
  priorityLower.includes(keyword))\<close> with \<^verbatim>\<open>relevantKeywords = priorityKeywords[dominantLower]
  || []\<close>.
\<close>

definition priorityKeywords :: "string \<Rightarrow> string list option" where
  "priorityKeywords k =
     (if k = ''work'' then Some [''work'', ''task'', ''project'', ''complete'', ''finish'', ''deliver'',
                                 ''code'', ''build'', ''create'']
      else if k = ''meetings'' then Some [''meeting'', ''call'', ''sync'', ''discuss'', ''collaborate'',
                                          ''team'', ''standup'', ''review'']
      else if k = ''break'' then Some [''break'', ''rest'', ''lunch'', ''pause'', ''recharge'', ''refresh'',
                                       ''relax'']
      else if k = ''planning'' then Some [''plan'', ''organize'', ''review'', ''strategize'', ''prepare'',
                                          ''schedule'', ''prioritize'']
      else if k = ''other'' then Some [''other'', ''misc'', ''admin'', ''email'', ''message'', ''chat'']
      else None)"

definition priorityMatchesLabel :: "string \<Rightarrow> string \<Rightarrow> js_error + bool" where
  "priorityMatchesLabel priority dominantLabel =
     (let priorityLower = toLowerCase priority;
          dominantLower = toLowerCase dominantLabel
      in case priorityKeywords dominantLower of
           Some relevantKeywords \<Rightarrow>
             Inr (list_ex (\<lambda>keyword. includesStr priorityLower keyword) relevantKeywords)
         | None \<Rightarrow> if inheritedProperty dominantLower then Inl TypeError else Inr False)"

text \<open>
  A label is plain when it is neither \<^verbatim>\<open>__proto__\<close> nor \<^verbatim>\<open>hasOwnProperty\<close> and its
  lower-case form is not a name found on \<^verbatim>\<open>Object.prototype\<close>.
\<close>

definition plainLabel :: "string \<Rightarrow> bool" where
  "plainLabel l = (l \<noteq> ''__proto__'' \<and> l \<noteq> ''hasOwnProperty'' \<and> \<not> inheritedProperty (toLowerCase l))"

subsection \<open>Daily insight\<close>

text \<open>
  \<^verbatim>\<open>getTodayBlocks()\<close> and \<^verbatim>\<open>getWeekBlocks()\<close>. The calendar belongs to the host:
  \<open>toDateString\<close> is \<^verbatim>\<open>new Date(t).toDateString()\<close> and \<open>weekStartOf now\<close> is local
  midnight seven days before \<open>now\<close> (\<^verbatim>\<open>setDate(now.getDate() - 7)\<close>, then
  \<^verbatim>\<open>setHours(0, 0, 0, 0)\<close>).
\<close>

definition getTodayBlocks :: "(int \<Rightarrow> 'day) \<Rightarrow> int \<Rightarrow> 'day state \<Rightarrow> time_block list" where
  "getTodayBlocks toDateString now s =
     (let blocks = getTimeBlocks s; today = toDateString now
      in filter (\<lambda>block. toDateString (tb_start block) = today) blocks)"

definition getWeekBlocks :: "(int \<Rightarrow> int) \<Rightarrow> int \<Rightarrow> 'day state \<Rightarrow> time_block list" where
  "getWeekBlocks weekStartOf now s =
     (let blocks = getTimeBlocks s; weekStart = weekStartOf now
      in filter (\<lambda>block. tb_start block \<ge> weekStart) blocks)"

text \<open>The two sentences of the daily insight.\<close>

definition mismatchSentence :: "string \<Rightarrow> rat \<Rightarrow> string \<Rightarrow> string" where
  "mismatchSentence priority hours label =
     ''You said '' @ [dq] @ priority @ [dq] @ '' mattered most today, but spent '' @ toFixed1 hours
       @ '' hours in '' @ toLowerCase label @ ''.''"

definition alignedSentence :: "string \<Rightarrow> rat \<Rightarrow> string \<Rightarrow> string" where
  "alignedSentence priority hours label =
     ''You said '' @ [dq] @ priority @ [dq] @ '' mattered most today. You spent '' @ toFixed1 hours
       @ '' hours in '' @ toLowerCase label @ ''.''"

text \<open>
  \<^verbatim>\<open>generateDailyInsight()\<close>. \<open>now1\<close> is the clock reading of \<^verbatim>\<open>getTodayPriority()\<close>
  and \<open>now2\<close> that of \<^verbatim>\<open>getTodayBlocks()\<close>. The result \<open>Inr None\<close> is \<^verbatim>\<open>null\<close>. The
  array \<^verbatim>\<open>sorted\<close> is the entries of \<^verbatim>\<open>labelHours\<close> in descending order of hours (the
  sort is stable) without the dominant label and the labels of zero hours.
\<close>

definition generateDailyInsight :: "(int \<Rightarrow> 'day) \<Rightarrow> int \<Rightarrow> int \<Rightarrow> popup \<Rightarrow> 'day state \<Rightarrow> js_error + string option" where
  "generateDailyInsight toDateString now1 now2 pm s =
     (case getTodayPriority (toDateString now1) s of
        None \<Rightarrow> Inr None
      | Some priority \<Rightarrow>
          (let blocks = getTodayBlocks toDateString now2 s in
           if length blocks = 0 then Inr None
           else (let labels = getLabels pm s in
                 case countBlocks blocks (initCounts labels) of
                   Inl e \<Rightarrow> Inl e
                 | Inr labelCounts \<Rightarrow>
                    (let labelHours = toHours labelCounts in
                     case dominant labelHours of
                       Inl e \<Rightarrow> Inl e
                     | Inr dominantLabel \<Rightarrow>
                        (case priorityMatchesLabel priority dominantLabel of
                           Inl e \<Rightarrow> Inl e
                         | Inr True \<Rightarrow>
                            (let sorted = filter (\<lambda>(label, h). label \<noteq> dominantLabel \<and> hoursOf labelHours label > 0)
                                            (sort_key (\<lambda>(label, h). - h) (objectEntries labelHours))
                             in case sorted of
                                  (secondLabel, hours) # rest \<Rightarrow>
                                    if hours \<ge> 1 then Inr (Some (mismatchSentence priority hours secondLabel))
                                    else Inr (Some (alignedSentence priority (hoursOf labelHours dominantLabel) dominantLabel))
                                | [] \<Rightarrow> Inr (Some (alignedSentence priority (hoursOf labelHours dominantLabel) dominantLabel)))
                         | Inr False \<Rightarrow>
                            (let hours = hoursOf labelHours dominantLabel
                             in Inr (Some (mismatchSentence priority hours dominantLabel))))))))"

subsection \<open>Weekly insights\<close>

text \<open>
  The object \<^verbatim>\<open>biggestMismatch\<close> with its fields \<^verbatim>\<open>day\<close>, \<^verbatim>\<open>priority\<close>, \<^verbatim>\<open>actual\<close>,
  \<^verbatim>\<open>hours\<close>, and the object returned by \<^verbatim>\<open>generateWeeklyInsights()\<close>.
\<close>

record 'day mismatch =
  mm_day :: 'day
  mm_priority :: string
  mm_actual :: string
  mm_hours :: rat

record 'day weekly_insights =
  wi_biggestMismatch :: "'day mismatch option"
  wi_longestAvoidanceStreak :: rat
  wi_suggestion :: "string option"

text \<open>
  \<^verbatim>\<open>dayGroups\<close>: the blocks of each day, the days in the order in which they first occur
  (a date string is never an array index).
\<close>

definition addToDay :: "'day \<Rightarrow> time_block \<Rightarrow> ('day \<times> time_block list) list \<Rightarrow> ('day \<times> time_block list) list" where
  "addToDay day block dayGroups =
     (let dayGroups1 = (if map_of dayGroups day = None then put day [] dayGroups else dayGroups)
      in case map_of dayGroups1 day of
           None \<Rightarrow> dayGroups1
         | Some dayBlocks \<Rightarrow> put day (dayBlocks @ [block]) dayGroups1)"

definition groupByDay :: "(int \<Rightarrow> 'day) \<Rightarrow> time_block list \<Rightarrow> ('day \<times> time_block list) list" where
  "groupByDay toDateString blocks =
     foldl (\<lambda>dayGroups block. addToDay (toDateString (tb_start block)) block dayGroups) [] blocks"

text \<open>
  The body of \<^verbatim>\<open>Object.keys(dayGroups).forEach\<close> for a day with a priority: the dominant
  label of the day and its hours when the priority does not match it.
\<close>

definition dayMismatch :: "string list \<Rightarrow> string \<Rightarrow> time_block list \<Rightarrow> js_error + (string \<times> rat) option" where
  "dayMismatch labels dayPriority dayBlocks =
     (case countBlocks dayBlocks (initCounts labels) of
        Inl e \<Rightarrow> Inl e
      | Inr dayLabelCounts \<Rightarrow>
          (let dayLabelHours = toHours dayLabelCounts in
           case dominant dayLabelHours of
             Inl e \<Rightarrow> Inl e
           | Inr dominantLabel \<Rightarrow>
               (case priorityMatchesLabel dayPriority dominantLabel of
                  Inl e \<Rightarrow> Inl e
                | Inr matches \<Rightarrow>
                    if \<not> matches then Inr (Some (dominantLabel, hoursOf dayLabelHours dominantLabel))
                    else Inr None)))"

fun mismatchLoop :: "string list \<Rightarrow> ('day \<rightharpoonup> string) \<Rightarrow> ('day \<times> time_block list) list
    \<Rightarrow> 'day mismatch option \<times> rat \<Rightarrow> js_error + ('day mismatch option \<times> rat)" where
  "mismatchLoop labels dailyPriorities [] acc = Inr acc"
| "mismatchLoop labels dailyPriorities ((day, dayBlocks) # dayGroups) (biggestMismatch, maxMismatchHours) =
     (case dailyPriorities day of
        None \<Rightarrow> mismatchLoop labels dailyPriorities dayGroups (biggestMismatch, maxMismatchHours)
      | Some dayPriority \<Rightarrow>
          if dayPriority = [] then mismatchLoop labels dailyPriorities dayGroups (biggestMismatch, maxMismatchHours)
          else (case dayMismatch labels dayPriority dayBlocks of
                  Inl e \<Rightarrow> Inl e
                | Inr None \<Rightarrow> mismatchLoop labels dailyPriorities dayGroups (biggestMismatch, maxMismatchHours)
                | Inr (Some (dominantLabel, hours)) \<Rightarrow>
                    if hours > maxMismatchHours
                    then mismatchLoop labels dailyPriorities dayGroups
                           (Some \<lparr>mm_day = day, mm_priority = dayPriority, mm_actual = dominantLabel,
                                   mm_hours = hours\<rparr>, hours)
                    else mismatchLoop labels dailyPriorities dayGroups (biggestMismatch, maxMismatchHours)))"

text \<open>
  The streak: \<^verbatim>\<open>breakLabel\<close> (\<^verbatim>\<open>labels[labels.length - 1]\<close> of an empty array is
  \<^verbatim>\<open>undefined\<close>, which no label equals) and the body of \<^verbatim>\<open>sortedBlocks.forEach\<close> on the
  pair of \<^verbatim>\<open>longestStreak\<close> and \<^verbatim>\<open>currentStreak\<close>.
\<close>

definition breakLabelOf :: "string list \<Rightarrow> string option" where
  "breakLabelOf labels =
     (if ''Break'' \<in> set labels then Some ''Break''
      else if ''Other'' \<in> set labels then Some ''Other''
      else if labels = [] then None
      else Some (last labels))"

definition streakStep :: "string option \<Rightarrow> nat \<times> nat \<Rightarrow> time_block \<Rightarrow> nat \<times> nat" where
  "streakStep breakLabel acc block =
     (case acc of (longestStreak, currentStreak) \<Rightarrow>
        if Some (tb_label block) = breakLabel
        then (max longestStreak (currentStreak + 1), currentStreak + 1)
        else (longestStreak, 0))"

text \<open>The suggestion; \<open>random\<close> is the value of \<^verbatim>\<open>Math.random()\<close>.\<close>

definition suggestions :: "string list" where
  "suggestions =
     [''Consider batching similar tasks together to improve focus.'',
      ''Review your meeting schedule - could any be shorter or async?'',
      ''Try time-blocking your most important work for better results.'']"

definition pickSuggestion :: "rat \<Rightarrow> string option" where
  "pickSuggestion random =
     (let i = nat \<lfloor>random * of_nat (length suggestions)\<rfloor>
      in if i < length suggestions then Some (suggestions ! i) else None)"

text \<open>
  \<^verbatim>\<open>generateWeeklyInsights()\<close>. The counts of the whole week are computed first (their
  hours are not used afterwards), then the loop over the days, the streak over the blocks
  sorted by start time (the sort is stable), and the suggestion.
\<close>

definition generateWeeklyInsights ::
    "(int \<Rightarrow> 'day) \<Rightarrow> (int \<Rightarrow> int) \<Rightarrow> int \<Rightarrow> rat \<Rightarrow> popup \<Rightarrow> 'day state \<Rightarrow> js_error + 'day weekly_insights" where
  "generateWeeklyInsights toDateString weekStartOf now random pm s =
     (let blocks = getWeekBlocks weekStartOf now s;
          dailyPriorities = dailyPriority s;
          labels = getLabels pm s
      in case countBlocks blocks (initCounts labels) of
           Inl e \<Rightarrow> Inl e
         | Inr labelCounts \<Rightarrow>
            (let labelHours = toHours labelCounts;
                 dayGroups = groupByDay toDateString blocks
             in case mismatchLoop labels dailyPriorities dayGroups (None, 0) of
                  Inl e \<Rightarrow> Inl e
                | Inr (biggestMismatch, maxMismatchHours) \<Rightarrow>
                   (let sortedBlocks = sort_key tb_start blocks;
                        breakLabel = breakLabelOf labels;
                        longestStreak = fst (foldl (streakStep breakLabel) (0, 0) sortedBlocks);
                        suggestion = pickSuggestion random
                    in Inr \<lparr>wi_biggestMismatch = biggestMismatch,
                            wi_longestAvoidanceStreak = of_nat longestStreak * (1 / 4),
                            wi_suggestion = suggestion\<rparr>)))"

section \<open>The specification's notions\<close>

text \<open>
  A run of consecutive blocks with a property is a contiguous part of the list all of whose
  elements have it; \<open>n\<close> is the length of the longest run when some run has length \<open>n\<close>
  and none is longer.
\<close>

definition spec_longest_run :: "('a \<Rightarrow> bool) \<Rightarrow> 'a list \<Rightarrow> nat \<Rightarrow> bool" where
  "spec_longest_run P xs n =
     ((\<exists>seg. sublist seg xs \<and> list_all P seg \<and> length seg = n) \<and>
      (\<forall>seg. sublist seg xs \<and> list_all P seg \<longrightarrow> length seg \<le> n))"

text \<open>The avoidance label: Break if present in the label set, else Other if present, else
  the last label of the set.\<close>

definition spec_avoidanceLabel :: "string list \<Rightarrow> string" where
  "spec_avoidanceLabel labelSet =
     (if ''Break'' \<in> set labelSet then ''Break''
      else if ''Other'' \<in> set labelSet then ''Other''
      else last labelSet)"

text \<open>
  The blocks grouped by calendar day, the days in the order of their first block; the
  mismatch of a day that has a declared priority (the test of \<open>dayMismatch\<close>), if any;
  and the result that keeps the first of the largest mismatches, or none when no mismatch
  has more than zero hours.
\<close>

definition spec_dayGroups :: "(int \<Rightarrow> 'day) \<Rightarrow> time_block list \<Rightarrow> ('day \<times> time_block list) list" where
  "spec_dayGroups toDateString blocks =
     map (\<lambda>day. (day, filter (\<lambda>block. toDateString (tb_start block) = day) blocks))
       (rev (remdups (rev (map (\<lambda>block. toDateString (tb_start block)) blocks))))"





section \<open>Example states\<close>

text \<open>
  Concrete inputs for the examples below. Days are numbered from the epoch in UTC, so that
  \<open>utcDay\<close> plays \<^verbatim>\<open>toDateString\<close> and \<open>ex_weekStart\<close> the start of the week.
\<close>

definition utcDay :: "int \<Rightarrow> int" where
  "utcDay t = t div 86400000"

definition ex_weekStart :: "int \<Rightarrow> int" where
  "ex_weekStart now = (utcDay now - 7) * 86400000"

definition ex_restart :: "int state" where
  "ex_restart = installed\<lparr>isRunning := True, timerStart := Some (1700000000000 - 20 * 60 * 1000)\<rparr>"

definition ex_stopped :: "int state" where
  "ex_stopped = fire MsgStopTimer (fire (MsgStartTimer 1000) installed)"

definition ex_pending :: pending_block where
  "ex_pending = \<lparr>pb_start = 1000, pb_end = 901000\<rparr>"

definition ex_awaiting :: "int state" where
  "ex_awaiting = installed\<lparr>pendingBlock := Some ex_pending, timerStart := Some 1000, isRunning := True,
                            badgeText := ''!'', notification := True\<rparr>"

definition ex_popup :: popup where
  "ex_popup = fresh_popup\<lparr>selectedLabel := Some ''Work'', popup_pendingBlock := Some ex_pending\<rparr>"

definition ex_block :: time_block where
  "ex_block = \<lparr>tb_start = 1000, tb_end = 901000, tb_label = ''Work'', tb_note = Some ''inbox'',
               tb_dailyPriority = None\<rparr>"

definition ex_logged :: "int state" where
  "ex_logged = installed\<lparr>timeBlocks := [ex_block]\<rparr>"

definition ex_block_at :: "int \<Rightarrow> string \<Rightarrow> time_block" where
  "ex_block_at t lbl = \<lparr>tb_start = t, tb_end = t + 900000, tb_label = lbl, tb_note = None,
                          tb_dailyPriority = Some ''Finish the client report''\<rparr>"

definition ex_daily :: "int state" where
  "ex_daily = installed\<lparr>
     timeBlocks := [ex_block_at 1700000000000 ''Work'', ex_block_at 1700000900000 ''Work'',
                    ex_block_at 1700001800000 ''Meetings'', ex_block_at 1700002700000 ''Work''],
     dailyPriority := [19675 \<mapsto> ''Finish the client report'']\<rparr>"

definition ex_plain_block :: "int \<Rightarrow> string \<Rightarrow> time_block" where
  "ex_plain_block t lbl = \<lparr>tb_start = t, tb_end = t + 900000, tb_label = lbl, tb_note = None,
                          tb_dailyPriority = None\<rparr>"





definition ex_streak :: "int state" where
  "ex_streak = installed\<lparr>
     timeBlocks := [ex_plain_block 1700001800000 ''Work'', ex_plain_block 1700000000000 ''Break'',
                    ex_plain_block 1700000900000 ''Break'', ex_plain_block 1700090900000 ''Break'',
                    ex_plain_block 1700090000000 ''Break'', ex_plain_block 1700180000000 ''Break'']\<rparr>"

definition ex_streak_insights :: "int weekly_insights" where
  "ex_streak_insights = \<lparr>wi_biggestMismatch = None, wi_longestAvoidanceStreak = 3 / 4,
     wi_suggestion = Some ''Consider batching similar tasks together to improve focus.''\<rparr>"

definition ex_constructor :: "int state" where
  "ex_constructor = installed\<lparr>
     timeBlocks := [ex_plain_block 1700000000000 ''Constructor''],
     customLabels := Some [''Constructor''],
     dailyPriority := [19675 \<mapsto> ''Ship the release'']\<rparr>"

section \<open>The timer engine: recovery, the stopped state, the pending block\<close>

lemmas handler_defs = initialize_def checkTimerState_def checkDailyPriority_def triggerInterrupt_def
  scheduleNextInterrupt_def onAlarm_def updateBadge_def ensureNotificationExists_def
  msg_startTimer_def msg_stopTimer_def msg_scheduleNextInterrupt_def msg_clearPendingBlock_def
  initializePopup_def submitPriority_def setTodayPriority_def saveTimeBlock_def saveLabels_def

lemma checkDailyPriority_timer:
  "isRunning (checkDailyPriority today s) = isRunning s"
  "pendingBlock (checkDailyPriority today s) = pendingBlock s"
  "timerStart (checkDailyPriority today s) = timerStart s"
  "alarm (checkDailyPriority today s) = alarm s"
  by (simp_all add: checkDailyPriority_def Let_def)

text \<open>
  Claim C4. On a restart with the timer running, no pending block and a persisted
  \<^verbatim>\<open>timerStart\<close>, the state check creates the pending block from \<^verbatim>\<open>timerStart\<close> to the
  current time at once, scheduling nothing, when at least 15 minutes have passed, and
  otherwise creates no pending block and schedules the alarm after the remaining time.
  The same holds for \<^verbatim>\<open>initialize()\<close>, which runs the check at every start of the
  service worker. A persisted \<^verbatim>\<open>timerStart\<close> is a reading of \<^verbatim>\<open>Date.now()\<close> and so is
  not 0, which the code takes for absent.
\<close>

theorem restart_recovery:
  assumes "isRunning s" and "pendingBlock s = None" and "timerStart s = Some t" and "t \<noteq> 0"
  shows "(now1 - t \<ge> INTERRUPT_INTERVAL \<longrightarrow>
            pendingBlock (checkTimerState now1 now2 nowS nowE s) = Some \<lparr>pb_start = t, pb_end = nowE\<rparr> \<and>
            alarm (checkTimerState now1 now2 nowS nowE s) = alarm s) \<and>
         (now1 - t < INTERRUPT_INTERVAL \<longrightarrow>
            pendingBlock (checkTimerState now1 now2 nowS nowE s) = None \<and>
            alarm (checkTimerState now1 now2 nowS nowE s) = Some (now2 + (INTERRUPT_INTERVAL - (now1 - t)))) \<and>
         pendingBlock (initialize today now1 now2 nowS nowE s) = pendingBlock (checkTimerState now1 now2 nowS nowE s) \<and>
         alarm (initialize today now1 now2 nowS nowE s) = alarm (checkTimerState now1 now2 nowS nowE s)"
  using assms
  by (simp add: initialize_def checkTimerState_def checkDailyPriority_timer triggerInterrupt_def
      scheduleNextInterrupt_def Let_def)

theorem restart_recovery_witness:
  "isRunning ex_restart \<and> pendingBlock ex_restart = None \<and>
   timerStart ex_restart = Some (1700000000000 - 20 * 60 * 1000) \<and>
   1700000000000 - (1700000000000 - 20 * 60 * 1000) \<ge> INTERRUPT_INTERVAL \<and>
   pendingBlock (initialize 19675 1700000000000 1700000000000 1700000000000 1700000000000 ex_restart)
     = Some \<lparr>pb_start = 1700000000000 - 20 * 60 * 1000, pb_end = 1700000000000\<rparr> \<and>
   alarm (initialize 19675 1700000000000 1700000000000 1700000000000 1700000000000 ex_restart) = None"
  using restart_recovery [of ex_restart "1700000000000 - 20 * 60 * 1000" 1700000000000
      1700000000000 1700000000000 1700000000000 19675]
  by (simp add: ex_restart_def installed_def INTERRUPT_INTERVAL_def)



lemma fire_timerStart_le:
  "(\<forall>t. timerStart s = Some t \<longrightarrow> t \<le> c) \<Longrightarrow> sorted (c # readings ev) \<Longrightarrow>
   timerStart (fire ev s) = Some t \<Longrightarrow> t \<le> last (c # readings ev)"
  by (cases ev) (auto simp: handler_defs Let_def split: option.splits if_splits)

lemma reachable_timerStart_le:
  "reachable s c \<Longrightarrow> timerStart s = Some t \<Longrightarrow> t \<le> c"
proof (induction arbitrary: t rule: reachable.induct)
  case (start clock)
  then show ?case by (simp add: installed_def)
next
  case (step s clock ev)
  then show ?case using fire_timerStart_le[of s clock ev t] by blast
qed

lemma ex_stopped_reachable: "reachable ex_stopped 1000"
proof -
  have "reachable (fire (MsgStartTimer 1000) (installed :: int state))
          (last (0 # readings (MsgStartTimer 1000 :: int event)))"
    by (rule reachable.step[OF reachable.start]) simp_all
  then have r1: "reachable (fire (MsgStartTimer 1000) (installed :: int state)) 1000" by simp
  have "reachable (fire MsgStopTimer (fire (MsgStartTimer 1000) (installed :: int state)))
          (last (1000 # readings (MsgStopTimer :: int event)))"
    by (rule reachable.step[OF r1]) simp_all
  then show ?thesis by (simp add: ex_stopped_def)
qed



text \<open>
  Claim C10, as stated, at a concrete input: with no \<^verbatim>\<open>timerStart\<close> persisted, the two
  endpoints are two readings of the clock, and when the clock moves from 1000 to 1001
  between them the pending block is not of length zero.
\<close>

theorem zero_length_counterexample:
  "timerStart (installed :: int state) = None \<and>
   map_option pb_start (pendingBlock (triggerInterrupt 1000 1001 (installed :: int state))) = Some 1000 \<and>
   map_option pb_end (pendingBlock (triggerInterrupt 1000 1001 (installed :: int state))) = Some 1001 \<and>
   map_option pb_start (pendingBlock (triggerInterrupt 1000 1001 (installed :: int state)))
     \<noteq> map_option pb_end (pendingBlock (triggerInterrupt 1000 1001 (installed :: int state)))"
  by (simp add: triggerInterrupt_def installed_def)

text \<open>
  Claim C10, amended. In every reachable state, an interrupt whose clock readings do not
  fall behind the clock creates a pending block with \<open>start \<le> end\<close>, whose end is the
  second reading. When no \<^verbatim>\<open>timerStart\<close> is persisted its start is the first reading, so
  the block has length zero when the two readings agree; otherwise its start is the
  persisted \<^verbatim>\<open>timerStart\<close>.
\<close>

theorem pending_block_ordered:
  assumes "reachable s clock" and "clock \<le> nowS" and "nowS \<le> nowE"
  shows "\<exists>pb. pendingBlock (triggerInterrupt nowS nowE s) = Some pb \<and>
              pb_start pb \<le> pb_end pb \<and> pb_end pb = nowE \<and>
              (\<not> truthy (timerStart s) \<longrightarrow> pb_start pb = nowS) \<and>
              (\<not> truthy (timerStart s) \<and> nowS = nowE \<longrightarrow> pb_start pb = pb_end pb) \<and>
              (truthy (timerStart s) \<longrightarrow> timerStart s = Some (pb_start pb))"
proof (cases "timerStart s")
  case None
  then show ?thesis using assms by (simp add: triggerInterrupt_def truthy_def)
next
  case (Some t)
  then have "t \<le> clock" using assms(1) reachable_timerStart_le by blast
  then show ?thesis using Some assms by (simp add: triggerInterrupt_def truthy_def)
qed

theorem pending_block_ordered_witness:
  "reachable ex_stopped 1000 \<and> (1000::int) \<le> 2000 \<and> (2000::int) \<le> 2000 \<and>
   pendingBlock (triggerInterrupt 2000 2000 ex_stopped) = Some \<lparr>pb_start = 2000, pb_end = 2000\<rparr>"
proof -
  have t: "timerStart ex_stopped = None" by (simp add: ex_stopped_def msg_stopTimer_def)
  have "\<exists>pb. pendingBlock (triggerInterrupt 2000 2000 ex_stopped) = Some pb \<and> pb_end pb = 2000 \<and> pb_start pb = 2000"
    using pending_block_ordered [OF ex_stopped_reachable, of 2000 2000] t by (auto simp: truthy_def)
  then show ?thesis using ex_stopped_reachable by auto
qed

section \<open>Submitting a label\<close>

lemma trim_inbox: "trim ''inbox'' = ''inbox''"
  by (simp add: trim_def isSpace_def)

lemma run_effects_simps:
  "run_effects [] s = s"
  "run_effects (eff # effs) s = run_effects effs (eff s)"
  by (simp_all add: run_effects_def)

lemma getTodayPriority_frame:
  "dailyPriority s' = dailyPriority s \<Longrightarrow> getTodayPriority today s' = getTodayPriority today s"
  by (simp add: getTodayPriority_def)

lemma submit_plan_accepted:
  assumes "selectedLabel pm = Some lbl" and "lbl \<noteq> []" and "length noteValue \<le> NOTE_CHAR_LIMIT"
    and "popup_pendingBlock pm = Some pb"
  shows "submit_plan pm noteValue today now s =
           Submits (submit_timeBlock pb lbl noteValue (getTodayPriority today s))
                   (submit_effects (submit_timeBlock pb lbl noteValue (getTodayPriority today s)) now)"
  using assms by (simp add: submit_plan_def Let_def)

lemma submit_effects_fields:
  "timeBlocks (run_effects (submit_effects tb now) s) = timeBlocks s @ [tb]"
  "pendingBlock (run_effects (submit_effects tb now) s) = None"
  "dailyPriority (run_effects (submit_effects tb now) s) = dailyPriority s"
  by (simp_all add: submit_effects_def run_effects_simps saveTimeBlock_def getTimeBlocks_def
      msg_scheduleNextInterrupt_def scheduleNextInterrupt_def Let_def)

lemma ex_submission:
  "selectedLabel ex_popup = Some ''Work''" "''Work'' \<noteq> []" "length ''inbox'' \<le> NOTE_CHAR_LIMIT"
  "popup_pendingBlock ex_popup = Some ex_pending"
  by (simp_all add: ex_popup_def NOTE_CHAR_LIMIT_def)

lemma ex_submission_block:
  "submit_timeBlock ex_pending ''Work'' ''inbox'' (getTodayPriority 0 ex_awaiting) = ex_block"
  by (simp add: submit_timeBlock_def ex_pending_def ex_block_def trim_inbox getTodayPriority_def
      falsy_string_def ex_awaiting_def installed_def)

text \<open>
  Claim C1, as stated, at a concrete input: a pending block is stored, the popup has loaded
  it, the label Work is selected. One submission appends one time block; a second
  submission in a row, with the same label and note, appends the same block again.
\<close>

theorem double_submit_counterexample:
  "pendingBlock ex_awaiting = Some ex_pending \<and>
   map_sum id timeBlocks (submitLabel ex_popup ''inbox'' 0 902000 ex_awaiting) = Inr [ex_block] \<and>
   map_sum id timeBlocks (submitLabel_twice ex_popup ''inbox'' 0 902000 903000 ex_awaiting)
     = Inr [ex_block, ex_block]"
  by (simp add: submitLabel_twice_def submitLabel_def submit_plan_def ex_popup_def fresh_popup_def
      ex_awaiting_def installed_def ex_pending_def ex_block_def NOTE_CHAR_LIMIT_def Let_def
      submit_timeBlock_def trim_inbox getTodayPriority_def falsy_string_def
      submit_effects_def run_effects_simps saveTimeBlock_def getTimeBlocks_def
      msg_scheduleNextInterrupt_def scheduleNextInterrupt_def)

text \<open>
  Claim C1, amended. A submission that passes the checks of the handler (a label is
  selected, the note is within the limit) from a popup that has loaded a pending block
  appends exactly one time block and clears the stored pending block. The handler has no
  guard on the stored pending block and builds the block from the copy of the popup, so a
  second submission in a row appends the same block once more.
\<close>

theorem submit_appends_each_time:
  assumes "selectedLabel pm = Some lbl" and "lbl \<noteq> []" and "length noteValue \<le> NOTE_CHAR_LIMIT"
    and "popup_pendingBlock pm = Some pb"
  shows "\<exists>s1 s2. submitLabel pm noteValue today now s = Inr s1 \<and>
           timeBlocks s1 = timeBlocks s @ [submit_timeBlock pb lbl noteValue (getTodayPriority today s)] \<and>
           pendingBlock s1 = None \<and>
           submitLabel_twice pm noteValue today now now' s = Inr s2 \<and>
           timeBlocks s2 = timeBlocks s @ [submit_timeBlock pb lbl noteValue (getTodayPriority today s),
                                           submit_timeBlock pb lbl noteValue (getTodayPriority today s)] \<and>
           pendingBlock s2 = None"
proof -
  let ?tb = "submit_timeBlock pb lbl noteValue (getTodayPriority today s)"
  let ?s1 = "run_effects (submit_effects ?tb now) s"
  have 1: "submitLabel pm noteValue today now s = Inr ?s1"
    by (simp add: submitLabel_def submit_plan_accepted [OF assms])
  have p: "getTodayPriority today ?s1 = getTodayPriority today s"
    by (rule getTodayPriority_frame) (simp add: submit_effects_fields)
  have 2: "submitLabel pm noteValue today now' ?s1 = Inr (run_effects (submit_effects ?tb now') ?s1)"
    by (simp add: submitLabel_def submit_plan_accepted [OF assms] p)
  have 3: "submitLabel_twice pm noteValue today now now' s = Inr (run_effects (submit_effects ?tb now') ?s1)"
    by (simp add: submitLabel_twice_def 1 2)
  show ?thesis using 1 3 by (simp add: submit_effects_fields)
qed

theorem submit_appends_each_time_witness:
  "selectedLabel ex_popup = Some ''Work'' \<and> ''Work'' \<noteq> [] \<and> length ''inbox'' \<le> NOTE_CHAR_LIMIT \<and>
   popup_pendingBlock ex_popup = Some ex_pending \<and>
   (\<exists>s1 s2. submitLabel ex_popup ''inbox'' 0 902000 ex_awaiting = Inr s1 \<and>
            timeBlocks s1 = [ex_block] \<and> pendingBlock s1 = None \<and>
            submitLabel_twice ex_popup ''inbox'' 0 902000 903000 ex_awaiting = Inr s2 \<and>
            timeBlocks s2 = [ex_block, ex_block])"
proof -
  have c: "timeBlocks ex_awaiting = []" by (simp add: ex_awaiting_def installed_def)
  show ?thesis
    using submit_appends_each_time [OF ex_submission, of 0 902000 ex_awaiting 903000]
      ex_submission ex_submission_block c by auto
qed

lemma take_submit_effects:
  "take k (submit_effects tb now) =
     (if k = 0 then []
      else if k = 1 then [saveTimeBlock tb]
      else if k = 2 then [saveTimeBlock tb, (\<lambda>s. s\<lparr>pendingBlock := None\<rparr>)]
      else if k = 3 then [saveTimeBlock tb, (\<lambda>s. s\<lparr>pendingBlock := None\<rparr>),
                          (\<lambda>s. s\<lparr>badgeText := [], notification := False\<rparr>)]
      else submit_effects tb now)"
proof -
  consider "k = 0" | "k = 1" | "k = 2" | "k = 3" | "k \<ge> 4" by linarith
  then show ?thesis
  proof cases
    case 5
    then have "length (submit_effects tb now) \<le> k" by (simp add: submit_effects_def)
    then have "take k (submit_effects tb now) = submit_effects tb now" by (rule take_all)
    then show ?thesis using 5 by simp
  qed (simp_all add: submit_effects_def numeral_2_eq_2 numeral_3_eq_3)
qed

lemma submit_prefix_fields:
  "timeBlocks (run_effects (take k (submit_effects tb now)) s) =
     (if k = 0 then timeBlocks s else timeBlocks s @ [tb])"
  "pendingBlock (run_effects (take k (submit_effects tb now)) s) =
     (if k < 2 then pendingBlock s else None)"
  by (simp_all add: take_submit_effects run_effects_simps saveTimeBlock_def getTimeBlocks_def
      submit_effects_fields)

text \<open>
  Claim C2, as stated, at a concrete input: after the first effect of the submission the
  new time block is in the stored list and the pending block is still stored.
\<close>

theorem atomic_submit_counterexample:
  "map_sum id timeBlocks (submitLabel_after 1 ex_popup ''inbox'' 0 902000 ex_awaiting) = Inr [ex_block] \<and>
   map_sum id pendingBlock (submitLabel_after 1 ex_popup ''inbox'' 0 902000 ex_awaiting) = Inr (Some ex_pending)"
  by (simp add: submitLabel_after_def submit_plan_def ex_popup_def fresh_popup_def
      ex_awaiting_def installed_def ex_pending_def ex_block_def NOTE_CHAR_LIMIT_def Let_def
      submit_timeBlock_def trim_inbox getTodayPriority_def falsy_string_def
      submit_effects_def run_effects_simps saveTimeBlock_def getTimeBlocks_def)

text \<open>
  Claim C2, amended. The store holds at most one pending block (it is one optional key).
  An accepted submission appends the time block and clears the pending block in two
  separate writes, in this order: stopped before the first write the state is unchanged,
  between the two writes the new block is appended and the pending block is still stored,
  and from the second write on the block is appended exactly once and the pending block is
  cleared, as it is when the handler has run to its end.
\<close>

theorem submit_two_writes:
  assumes "selectedLabel pm = Some lbl" and "lbl \<noteq> []" and "length noteValue \<le> NOTE_CHAR_LIMIT"
    and "popup_pendingBlock pm = Some pb"
  shows "\<exists>sk. submitLabel_after k pm noteValue today now s = Inr sk \<and>
           timeBlocks sk = (if k = 0 then timeBlocks s
                            else timeBlocks s @ [submit_timeBlock pb lbl noteValue (getTodayPriority today s)]) \<and>
           pendingBlock sk = (if k < 2 then pendingBlock s else None) \<and>
           (4 \<le> k \<longrightarrow> submitLabel pm noteValue today now s = Inr sk)"
proof -
  let ?tb = "submit_timeBlock pb lbl noteValue (getTodayPriority today s)"
  have 1: "submitLabel_after k pm noteValue today now s = Inr (run_effects (take k (submit_effects ?tb now)) s)"
    by (simp add: submitLabel_after_def submit_plan_accepted [OF assms])
  have 2: "4 \<le> k \<Longrightarrow> run_effects (submit_effects ?tb now) s = run_effects (take k (submit_effects ?tb now)) s"
    by (simp add: take_submit_effects)
  have 3: "submitLabel pm noteValue today now s = Inr (run_effects (submit_effects ?tb now) s)"
    by (simp add: submitLabel_def submit_plan_accepted [OF assms])
  show ?thesis unfolding 1 3 using 2 by (simp add: submit_prefix_fields)
qed

theorem submit_two_writes_witness:
  "selectedLabel ex_popup = Some ''Work'' \<and> ''Work'' \<noteq> [] \<and> length ''inbox'' \<le> NOTE_CHAR_LIMIT \<and>
   popup_pendingBlock ex_popup = Some ex_pending \<and>
   (\<exists>sk. submitLabel_after 2 ex_popup ''inbox'' 0 902000 ex_awaiting = Inr sk \<and>
         timeBlocks sk = [ex_block] \<and> pendingBlock sk = None)"
proof -
  have c: "timeBlocks ex_awaiting = []" by (simp add: ex_awaiting_def installed_def)
  show ?thesis
    using submit_two_writes [OF ex_submission, of 2 0 902000 ex_awaiting]
      ex_submission ex_submission_block c by auto
qed

section \<open>Editing the label set\<close>

lemma trim_Deep: "trim ''Deep'' = ''Deep''"
  by (simp add: trim_def isSpace_def)

text \<open>
  Claim C9. Renaming a label, deleting a label and adding a label write the key
  \<^verbatim>\<open>customLabels\<close> only: the stored time blocks, and so the label of every stored block,
  are the same afterwards, and the state differs from the one before in the label list at
  most.
\<close>

theorem label_edits_keep_time_blocks:
  "(editLabel index currentName inputValue pm s = Some (pm', s') \<longrightarrow>
      timeBlocks s' = timeBlocks s \<and> map tb_label (timeBlocks s') = map tb_label (timeBlocks s) \<and>
      s' = s\<lparr>customLabels := customLabels s'\<rparr>) \<and>
   (deleteLabel index confirmed pm s = (pm', s') \<longrightarrow>
      timeBlocks s' = timeBlocks s \<and> map tb_label (timeBlocks s') = map tb_label (timeBlocks s) \<and>
      s' = s\<lparr>customLabels := customLabels s'\<rparr>) \<and>
   (addLabel inputValue pm s = (pm', s') \<longrightarrow>
      timeBlocks s' = timeBlocks s \<and> s' = s\<lparr>customLabels := customLabels s'\<rparr>) \<and>
   timeBlocks (saveLabels labels s) = timeBlocks s"
  by (auto simp: editLabel_def deleteLabel_def addLabel_def saveLabels_def Let_def split: if_splits)

theorem label_edits_keep_time_blocks_witness:
  "editLabel 0 ''Work'' ''Deep'' fresh_popup ex_logged
     = Some (fresh_popup\<lparr>DEFAULT_LABELS := [''Deep'', ''Meetings'', ''Break'', ''Planning'', ''Other'']\<rparr>,
             ex_logged\<lparr>customLabels := Some [''Deep'', ''Meetings'', ''Break'', ''Planning'', ''Other'']\<rparr>) \<and>
   map tb_label (timeBlocks (ex_logged\<lparr>customLabels := Some [''Deep'', ''Meetings'', ''Break'', ''Planning'', ''Other'']\<rparr>))
     = [''Work'']"
proof -
  have e: "editLabel 0 ''Work'' ''Deep'' fresh_popup ex_logged
     = Some (fresh_popup\<lparr>DEFAULT_LABELS := [''Deep'', ''Meetings'', ''Break'', ''Planning'', ''Other'']\<rparr>,
             ex_logged\<lparr>customLabels := Some [''Deep'', ''Meetings'', ''Break'', ''Planning'', ''Other'']\<rparr>)"
    by (simp add: editLabel_def trim_Deep getLabels_def ex_logged_def installed_def fresh_popup_def
        initial_DEFAULT_LABELS_def mutateLabels_def saveLabels_def Let_def)
  have "map tb_label (timeBlocks ex_logged) = [''Work'']"
    by (simp add: ex_logged_def ex_block_def)
  then show ?thesis
    using label_edits_keep_time_blocks [of 0 "''Work''" "''Deep''" fresh_popup ex_logged
        "fresh_popup\<lparr>DEFAULT_LABELS := [''Deep'', ''Meetings'', ''Break'', ''Planning'', ''Other'']\<rparr>"
        "ex_logged\<lparr>customLabels := Some [''Deep'', ''Meetings'', ''Break'', ''Planning'', ''Other'']\<rparr>"] e
    by simp
qed

section \<open>The daily insight\<close>

text \<open>
  Claim C3, as stated, at the input of the example (priority "Finish the client report",
  three blocks Work and one block Meetings today, the default labels): the sentence ending
  in "You spent 0.75 hours in work." is not what the function returns.
\<close>

theorem three_quarters_counterexample:
  "generateDailyInsight utcDay 1700003600000 1700003600000 fresh_popup ex_daily \<noteq>
     Inr (Some (''You said '' @ [dq] @ ''Finish the client report'' @ [dq]
                @ '' mattered most today. You spent 0.75 hours in work.''))"
  by code_simp

text \<open>
  Claim C3, amended. At the input of the example the hours are 0.75 for Work and 0.25 for
  Meetings, the dominant label is Work, the priority matches it (by the keyword "finish"),
  no other label has 1.0 hours or more, and the function returns the sentence with the
  hours printed by \<^verbatim>\<open>toFixed(1)\<close>: You said "Finish the client report" mattered most
  today. You spent 0.8 hours in work.
\<close>

theorem daily_example:
  "map tb_label (getTodayBlocks utcDay 1700003600000 ex_daily) = [''Work'', ''Work'', ''Meetings'', ''Work''] \<and>
   getTodayPriority (utcDay 1700003600000) ex_daily = Some ''Finish the client report'' \<and>
   getLabels fresh_popup ex_daily = [''Work'', ''Meetings'', ''Break'', ''Planning'', ''Other''] \<and>
   map_sum id toHours (countBlocks (getTodayBlocks utcDay 1700003600000 ex_daily)
                         (initCounts (getLabels fresh_popup ex_daily)))
     = Inr [(''Work'', 3 / 4), (''Meetings'', 1 / 4), (''Break'', 0), (''Planning'', 0), (''Other'', 0)] \<and>
   dominant [(''Work'', 3 / 4), (''Meetings'', 1 / 4), (''Break'', 0), (''Planning'', 0), (''Other'', 0)]
     = Inr ''Work'' \<and>
   priorityMatchesLabel ''Finish the client report'' ''Work'' = Inr True \<and>
   includesStr (toLowerCase ''Finish the client report'') ''finish'' \<and>
   toFixed1 (3 / 4) = ''0.8'' \<and>
   generateDailyInsight utcDay 1700003600000 1700003600000 fresh_popup ex_daily =
     Inr (Some (''You said '' @ [dq] @ ''Finish the client report'' @ [dq]
                @ '' mattered most today. You spent 0.8 hours in work.''))"
  by code_simp

text \<open>
  The daily insight is \<^verbatim>\<open>null\<close> exactly when no priority is declared for today or no
  block is recorded today.
\<close>

lemma daily_null_iff:
  "generateDailyInsight toDateString now1 now2 pm s = Inr None \<longleftrightarrow>
     getTodayPriority (toDateString now1) s = None \<or> getTodayBlocks toDateString now2 s = []"
  by (auto simp: generateDailyInsight_def Let_def split: option.splits sum.splits bool.splits list.splits)

lemma put_keys: "fst ` set (put k v obj) = insert k (fst ` set obj)"
proof (induction obj)
  case Nil
  then show ?case by simp
next
  case (Cons p obj)
  obtain k' v' where p: "p = (k', v')" by (cases p)
  show ?case
  proof (cases "k' = k")
    case True
    then show ?thesis by (simp add: p)
  next
    case False
    then have "fst ` set (put k v (p # obj)) = insert k' (fst ` set (put k v obj))" by (simp add: p)
    also have "\<dots> = insert k' (insert k (fst ` set obj))" by (simp only: Cons.IH)
    also have "\<dots> = insert k (fst ` set (p # obj))" by (auto simp: p)
    finally show ?thesis .
  qed
qed

lemma own_None_iff: "own obj k = None \<longleftrightarrow> k \<notin> fst ` set obj"
  by (simp add: own_def map_of_eq_None_iff)

lemma assign_keys: "fst ` set (assign k v obj) = (if k = ''__proto__'' then fst ` set obj else insert k (fst ` set obj))"
  by (simp add: assign_def put_keys)

lemma initCounts_keys: "fst ` set (initCounts labels) = set labels - {''__proto__''}"
proof -
  have "fst ` set (foldl (\<lambda>labelCounts label. assign label (0::nat) labelCounts) obj labels)
          = fst ` set obj \<union> (set labels - {''__proto__''})" for obj
    by (induction labels arbitrary: obj) (auto simp: assign_keys)
  from this [of "[]"] show ?thesis by (simp add: initCounts_def)
qed

lemma countBlocks_step:
  "own obj ''hasOwnProperty'' = None \<Longrightarrow>
   countBlocks (b # blocks) obj =
     countBlocks blocks
       (case own (if own obj (tb_label b) = None then assign (tb_label b) 0 obj else obj) (tb_label b) of
          None \<Rightarrow> (if own obj (tb_label b) = None then assign (tb_label b) 0 obj else obj)
        | Some n \<Rightarrow> assign (tb_label b) (n + 1)
                      (if own obj (tb_label b) = None then assign (tb_label b) 0 obj else obj))"
  by (simp add: Let_def)

lemma countBlocks_returns:
  assumes "''hasOwnProperty'' \<notin> fst ` set obj" and "\<forall>b \<in> set blocks. tb_label b \<noteq> ''hasOwnProperty''"
  shows "\<exists>obj'. countBlocks blocks obj = Inr obj' \<and>
           fst ` set obj' = fst ` set obj \<union> (tb_label ` set blocks - {''__proto__''})"
  using assms
proof (induction blocks arbitrary: obj)
  case Nil
  then show ?case by simp
next
  case (Cons b blocks)
  let ?l = "tb_label b"
  let ?o1 = "if own obj ?l = None then assign ?l 0 obj else obj"
  let ?o2 = "case own ?o1 ?l of None \<Rightarrow> ?o1 | Some n \<Rightarrow> assign ?l (n + 1) ?o1"
  have k1: "fst ` set ?o1 = fst ` set obj \<union> ({?l} - {''__proto__''})"
    by (auto simp: assign_keys own_None_iff)
  have k2: "fst ` set ?o2 = fst ` set obj \<union> ({?l} - {''__proto__''})"
    using k1 by (auto simp: assign_keys split: option.splits)
  have h: "''hasOwnProperty'' \<notin> fst ` set ?o2" using Cons.prems k2 by auto
  from Cons.IH [OF h] Cons.prems(2)
  obtain obj' where r: "countBlocks blocks ?o2 = Inr obj'"
    and k: "fst ` set obj' = fst ` set ?o2 \<union> (tb_label ` set blocks - {''__proto__''})" by auto
  have h0: "own obj ''hasOwnProperty'' = None" using Cons.prems(1) by (simp add: own_None_iff)
  have "countBlocks (b # blocks) obj = Inr obj'"
    using countBlocks_step [OF h0, of b blocks] r by (simp only:)
  moreover have "fst ` set obj' = fst ` set obj \<union> (tb_label ` set (b # blocks) - {''__proto__''})"
    unfolding k k2 by auto
  ultimately show ?case by blast
qed

lemma objectKeys_set: "set (objectKeys obj) = fst ` set obj"
  by (auto simp: objectKeys_def Let_def)

lemma toHours_keys: "fst ` set (toHours labelCounts) = fst ` set labelCounts - {''__proto__''}"
proof -
  have "fst ` set (foldl (\<lambda>labelHours label. assign label (f label :: rat) labelHours) obj ks)
          = fst ` set obj \<union> (set ks - {''__proto__''})" for obj ks f
    by (induction ks arbitrary: obj) (auto simp: assign_keys)
  from this [of _ "[]" "objectKeys labelCounts"] show ?thesis
    by (simp add: toHours_def objectKeys_set)
qed

lemma foldl_choice: "foldl (\<lambda>a b. if P a b then a else b) k ks \<in> set (k # ks)"
  by (induction ks arbitrary: k) auto

lemma dominant_returns:
  assumes "fst ` set labelHours \<noteq> {}"
  shows "\<exists>d. dominant labelHours = Inr d \<and> d \<in> fst ` set labelHours"
proof (cases "objectKeys labelHours")
  case Nil
  then have "set (objectKeys labelHours) = {}" by simp
  then show ?thesis using assms by (simp add: objectKeys_set)
next
  case (Cons k ks)
  let ?d = "foldl (\<lambda>a b. if hoursOf labelHours a > hoursOf labelHours b then a else b) k ks"
  have "?d \<in> set (k # ks)" by (rule foldl_choice)
  then have "?d \<in> set (objectKeys labelHours)" by (simp only: Cons)
  then have "?d \<in> fst ` set labelHours" by (simp only: objectKeys_set)
  moreover have "dominant labelHours = Inr ?d" by (simp add: dominant_def Cons)
  ultimately show ?thesis by blast
qed

lemma priorityMatchesLabel_returns:
  "\<not> inheritedProperty (toLowerCase d) \<Longrightarrow> \<exists>m. priorityMatchesLabel p d = Inr m"
  by (auto simp: priorityMatchesLabel_def Let_def split: option.splits)

lemma dominant_of_counts:
  assumes "\<forall>l \<in> set labels \<union> tb_label ` set blocks. plainLabel l" and "blocks \<noteq> []"
  shows "\<exists>labelCounts d. countBlocks blocks (initCounts labels) = Inr labelCounts \<and>
           dominant (toHours labelCounts) = Inr d \<and> plainLabel d"
proof -
  have pl: "\<And>l. plainLabel l \<Longrightarrow> l \<noteq> ''hasOwnProperty''"
    by (simp only: plainLabel_def) blast
  have h: "''hasOwnProperty'' \<notin> fst ` set (initCounts labels)"
    unfolding initCounts_keys using assms(1) pl by blast
  have b: "\<forall>b \<in> set blocks. tb_label b \<noteq> ''hasOwnProperty''"
    using assms(1) pl by blast
  from countBlocks_returns [OF h b] obtain labelCounts where
    r: "countBlocks blocks (initCounts labels) = Inr labelCounts" and
    k: "fst ` set labelCounts = fst ` set (initCounts labels) \<union> (tb_label ` set blocks - {''__proto__''})"
    by blast
  have keys: "fst ` set (toHours labelCounts) = (set labels \<union> tb_label ` set blocks) - {''__proto__''}"
    unfolding toHours_keys k initCounts_keys by blast
  obtain b0 where b0: "b0 \<in> set blocks" using assms(2) by (cases blocks) auto
  then have "plainLabel (tb_label b0)" using assms(1) by blast
  then have "tb_label b0 \<noteq> ''__proto__''" by (simp only: plainLabel_def) blast
  then have "tb_label b0 \<in> fst ` set (toHours labelCounts)" unfolding keys using b0 by blast
  then have "fst ` set (toHours labelCounts) \<noteq> {}" by (metis empty_iff)
  from dominant_returns [OF this] obtain d where
    d: "dominant (toHours labelCounts) = Inr d" "d \<in> fst ` set (toHours labelCounts)" by blast
  then have "d \<in> set labels \<union> tb_label ` set blocks" unfolding keys by blast
  then have "plainLabel d" using assms(1) by blast
  then show ?thesis using r d by blast
qed

lemma dayMismatch_returns:
  assumes "\<forall>l \<in> set labels \<union> tb_label ` set dayBlocks. plainLabel l" and "dayBlocks \<noteq> []"
  shows "\<exists>r. dayMismatch labels dayPriority dayBlocks = Inr r"
proof -
  from dominant_of_counts [OF assms] obtain labelCounts d where
    c: "countBlocks dayBlocks (initCounts labels) = Inr labelCounts"
    and d: "dominant (toHours labelCounts) = Inr d" and p: "plainLabel d" by blast
  from p have "\<not> inheritedProperty (toLowerCase d)" by (simp add: plainLabel_def)
  from priorityMatchesLabel_returns [OF this] obtain m where
    "priorityMatchesLabel dayPriority d = Inr m" by blast
  then show ?thesis using c d by (simp add: dayMismatch_def Let_def)
qed

text \<open>
  With a declared priority and a block of today, the daily insight is a sentence whenever
  the labels of the label set and of today's blocks are plain.
\<close>

lemma daily_returns_string:
  assumes "getTodayPriority (toDateString now1) s \<noteq> None"
    and "getTodayBlocks toDateString now2 s \<noteq> []"
    and "\<forall>l \<in> set (getLabels pm s) \<union> tb_label ` set (getTodayBlocks toDateString now2 s). plainLabel l"
  shows "\<exists>sentence. generateDailyInsight toDateString now1 now2 pm s = Inr (Some sentence)"
proof -
  from assms(1) obtain priority where pr: "getTodayPriority (toDateString now1) s = Some priority" by blast
  from dominant_of_counts [OF assms(3) assms(2)] obtain labelCounts d where
    c: "countBlocks (getTodayBlocks toDateString now2 s) (initCounts (getLabels pm s)) = Inr labelCounts"
    and d: "dominant (toHours labelCounts) = Inr d" and p: "plainLabel d" by blast
  from p have "\<not> inheritedProperty (toLowerCase d)" by (simp add: plainLabel_def)
  from priorityMatchesLabel_returns [OF this] obtain m where
    m: "priorityMatchesLabel priority d = Inr m" by blast
  show ?thesis
    using pr assms(2) c d m
    by (cases m) (auto simp: generateDailyInsight_def Let_def split: list.splits)
qed

text \<open>
  Claim C7 at a failing input: the label set is the one label Constructor, the priority of
  today is declared and one block of today carries that label. The dominant label in lower
  case is \<^verbatim>\<open>constructor\<close>, the lookup in the keyword table finds the inherited
  \<^verbatim>\<open>Object.prototype.constructor\<close> instead of no entry, and the call of \<^verbatim>\<open>some\<close> on it
  throws: the function returns neither \<^verbatim>\<open>null\<close> nor a string.
\<close>

theorem daily_throws_on_inherited_name:
  "getTodayPriority (utcDay 1700003600000) ex_constructor = Some ''Ship the release'' \<and>
   map tb_label (getTodayBlocks utcDay 1700003600000 ex_constructor) = [''Constructor''] \<and>
   generateDailyInsight utcDay 1700003600000 1700003600000 fresh_popup ex_constructor = Inl TypeError"
  by code_simp

section \<open>The weekly insights: grouping, the loop over the days, returning\<close>


lemma map_of_keyed:
  "map_of (map (\<lambda>k. (k, f k)) ks) d = (if d \<in> set ks then Some (f d) else None)"
  by (induction ks) auto

lemma put_keyed_absent:
  "d \<notin> set ks \<Longrightarrow> put d v (map (\<lambda>k. (k, f k)) ks) = map (\<lambda>k. (k, f k)) ks @ [(d, v)]"
  by (induction ks) auto

lemma put_keyed_present:
  "d \<in> set ks \<Longrightarrow> distinct ks \<Longrightarrow>
   put d v (map (\<lambda>k. (k, f k)) ks) = map (\<lambda>k. (k, if k = d then v else f k)) ks"
  by (induction ks) auto

lemma put_append_absent:
  "d \<notin> fst ` set xs \<Longrightarrow> put d v (xs @ ys) = xs @ put d v ys"
  by (induction xs) auto

lemma keyed_fst: "fst ` set (map (\<lambda>k. (k, f k)) ks) = set ks"
  by force

lemma groupByDay_spec: "groupByDay toDateString blocks = spec_dayGroups toDateString blocks"
proof (induction blocks rule: rev_induct)
  case Nil
  then show ?case by (simp add: groupByDay_def spec_dayGroups_def)
next
  case (snoc b bs)
  let ?day = "\<lambda>block. toDateString (tb_start block)"
  let ?ks = "rev (remdups (rev (map ?day bs)))"
  let ?f = "\<lambda>day. filter (\<lambda>block. ?day block = day) bs"
  let ?G = "map (\<lambda>k. (k, ?f k)) ?ks"
  have ks: "set ?ks = ?day ` set bs" "distinct ?ks" by simp_all
  have g: "groupByDay toDateString (bs @ [b]) = addToDay (?day b) b ?G"
    using snoc by (simp add: groupByDay_def spec_dayGroups_def)
  show ?case
  proof (cases "?day b \<in> set ?ks")
    case True
    then have "addToDay (?day b) b ?G
        = map (\<lambda>k. (k, if k = ?day b then ?f (?day b) @ [b] else ?f k)) ?ks"
      by (simp add: addToDay_def map_of_keyed put_keyed_present [OF True ks(2)])
    also have "\<dots> = spec_dayGroups toDateString (bs @ [b])"
      using True by (auto simp: spec_dayGroups_def)
    finally show ?thesis using g by simp
  next
    case False
    then have absent: "?day b \<notin> fst ` set ?G" by (simp only: keyed_fst not_False_eq_True)
    have m: "map_of ?G (?day b) = None" using False by (simp add: map_of_keyed)
    have p1: "put (?day b) [] ?G = ?G @ [(?day b, [])]"
      using False by (rule put_keyed_absent)
    have m2: "map_of (?G @ [(?day b, [])]) (?day b) = Some []"
      using m by (simp add: map_add_def)
    have p2: "put (?day b) ([] @ [b]) (?G @ [(?day b, [])]) = ?G @ [(?day b, [b])]"
      using put_append_absent [OF absent, of "[] @ [b]" "[(?day b, [])]"] by simp
    have "addToDay (?day b) b ?G = ?G @ [(?day b, [b])]"
      using p2 by (simp add: addToDay_def Let_def m p1 m2 del: map_of_append)
    also have "\<dots> = spec_dayGroups toDateString (bs @ [b])"
    proof -
      have "\<And>x. x \<in> set bs \<Longrightarrow> ?day x \<noteq> ?day b"
      proof
        fix x assume "x \<in> set bs" and "?day x = ?day b"
        then have "?day b \<in> ?day ` set bs" by (metis imageI)
        then show False using False ks(1) by simp
      qed
      then have "filter (\<lambda>block. ?day block = ?day b) bs = []"
        by (simp add: filter_empty_conv)
      then show ?thesis using False by (auto simp: spec_dayGroups_def)
    qed
    finally show ?thesis using g by simp
  qed
qed










lemma mismatchLoop_returns:
  assumes "\<forall>(day, dayBlocks) \<in> set dayGroups. dayBlocks \<noteq> [] \<and> (\<forall>l \<in> set labels \<union> tb_label ` set dayBlocks. plainLabel l)"
  shows "\<exists>r. mismatchLoop labels dailyPriorities dayGroups acc = Inr r"
  using assms
proof (induction labels dailyPriorities dayGroups acc rule: mismatchLoop.induct)
  case (1 labels dailyPriorities acc)
  then show ?case by simp
next
  case (2 labels dailyPriorities day dayBlocks dayGroups biggestMismatch maxMismatchHours)
  from "2.prems" have g: "dayBlocks \<noteq> []" "\<forall>l \<in> set labels \<union> tb_label ` set dayBlocks. plainLabel l"
    and rest: "\<forall>(day, dayBlocks) \<in> set dayGroups. dayBlocks \<noteq> [] \<and> (\<forall>l \<in> set labels \<union> tb_label ` set dayBlocks. plainLabel l)"
    by auto
  show ?case
  proof (cases "dailyPriorities day")
    case None
    then show ?thesis using "2.IH"(1) [OF None rest] by simp
  next
    case (Some dayPriority)
    show ?thesis
    proof (cases "dayPriority = []")
      case True
      then show ?thesis using "2.IH"(2) [OF Some True rest] Some by simp
    next
      case False
      from dayMismatch_returns [OF g(2) g(1)] obtain r where r: "dayMismatch labels dayPriority dayBlocks = Inr r"
        by blast
      show ?thesis
      proof (cases r)
        case None
        then show ?thesis using "2.IH"(3) [OF Some False r None rest] Some False r by simp
      next
        case (Some dh)
        obtain dominantLabel hours where dh: "dh = (dominantLabel, hours)" by (cases dh)
        show ?thesis
        proof (cases "hours > maxMismatchHours")
          case True
          then show ?thesis
            using "2.IH"(4) [OF \<open>dailyPriorities day = Some dayPriority\<close> False r Some dh [symmetric] True rest]
              \<open>dailyPriorities day = Some dayPriority\<close> False r Some dh by simp
        next
          case nle: False
          then show ?thesis
            using "2.IH"(5) [OF \<open>dailyPriorities day = Some dayPriority\<close> False r Some dh [symmetric] nle rest]
              \<open>dailyPriorities day = Some dayPriority\<close> False r Some dh by simp
        qed
      qed
    qed
  qed
qed

lemma spec_dayGroups_blocks:
  assumes "(day, dayBlocks) \<in> set (spec_dayGroups toDateString blocks)"
  shows "dayBlocks \<noteq> [] \<and> set dayBlocks \<subseteq> set blocks"
proof -
  from assms have d: "day \<in> (\<lambda>block. toDateString (tb_start block)) ` set blocks"
    and b: "dayBlocks = filter (\<lambda>block. toDateString (tb_start block) = day) blocks"
    by (auto simp: spec_dayGroups_def)
  from d obtain x where "x \<in> set blocks" "toDateString (tb_start x) = day" by auto
  then have "x \<in> set dayBlocks" using b by simp
  then have "dayBlocks \<noteq> []" by force
  moreover have "set dayBlocks \<subseteq> set blocks" unfolding b by (rule filter_is_subset)
  ultimately show ?thesis by blast
qed

text \<open>The weekly insights are returned whenever the labels of the label set and of the
  blocks of the week are plain.\<close>

lemma weekly_returns:
  assumes "\<forall>l \<in> set (getLabels pm s) \<union> tb_label ` set (getWeekBlocks weekStartOf now s). plainLabel l"
  shows "\<exists>w. generateWeeklyInsights toDateString weekStartOf now random pm s = Inr w"
proof -
  let ?blocks = "getWeekBlocks weekStartOf now s"
  let ?labels = "getLabels pm s"
  have pl: "\<And>l. plainLabel l \<Longrightarrow> l \<noteq> ''hasOwnProperty''"
    by (simp only: plainLabel_def) blast
  have h: "''hasOwnProperty'' \<notin> fst ` set (initCounts ?labels)"
    unfolding initCounts_keys using assms pl by blast
  have b: "\<forall>b \<in> set ?blocks. tb_label b \<noteq> ''hasOwnProperty''"
    using assms pl by blast
  from countBlocks_returns [OF h b] obtain labelCounts where
    c: "countBlocks ?blocks (initCounts ?labels) = Inr labelCounts" by blast
  have "\<forall>(day, dayBlocks) \<in> set (groupByDay toDateString ?blocks).
          dayBlocks \<noteq> [] \<and> (\<forall>l \<in> set ?labels \<union> tb_label ` set dayBlocks. plainLabel l)"
  proof (clarify, intro conjI ballI)
    fix day dayBlocks assume g: "(day, dayBlocks) \<in> set (groupByDay toDateString ?blocks)"
    then have "(day, dayBlocks) \<in> set (spec_dayGroups toDateString ?blocks)"
      by (simp only: groupByDay_spec)
    then have sg: "dayBlocks \<noteq> [] \<and> set dayBlocks \<subseteq> set ?blocks"
      by (rule spec_dayGroups_blocks)
    then show "dayBlocks \<noteq> []" by blast
    fix l assume "l \<in> set ?labels \<union> tb_label ` set dayBlocks"
    then have "l \<in> set ?labels \<union> tb_label ` set ?blocks" using sg by blast
    then show "plainLabel l" using assms by blast
  qed
  from mismatchLoop_returns [OF this] obtain r where
    "mismatchLoop ?labels (dailyPriority s) (groupByDay toDateString ?blocks) (None, 0) = Inr r" by blast
  then show ?thesis using c by (cases r) (simp add: generateWeeklyInsights_def Let_def)
qed

section \<open>The weekly streak\<close>

lemma sublist_snoc:
  "sublist seg (xs @ [x]) \<longleftrightarrow> sublist seg xs \<or> suffix seg (xs @ [x])"
proof -
  have "sublist seg (xs @ [x]) \<longleftrightarrow> sublist (rev seg) (x # rev xs)"
    by (metis rev.simps(2) rev_rev_ident sublist_rev)
  also have "\<dots> \<longleftrightarrow> prefix (rev seg) (x # rev xs) \<or> sublist (rev seg) (rev xs)"
    by (rule sublist_Cons_right)
  also have "\<dots> \<longleftrightarrow> suffix seg (xs @ [x]) \<or> sublist seg xs"
    by (metis rev.simps(2) rev_rev_ident sublist_rev suffix_to_prefix)
  finally show ?thesis by blast
qed

lemma suffix_all_le_takeWhile:
  assumes "suffix seg xs" and "list_all P seg"
  shows "length seg \<le> length (takeWhile P (rev xs))"
proof -
  from assms(1) obtain pre where xs: "xs = pre @ seg" by (auto simp: suffix_def)
  have "takeWhile P (rev seg @ rev pre) = rev seg @ takeWhile P (rev pre)"
    by (rule takeWhile_append2) (use assms(2) in \<open>auto simp: list_all_iff\<close>)
  then show ?thesis by (simp add: xs)
qed

lemma takeWhile_rev_suffix:
  "suffix (rev (takeWhile P (rev xs))) xs \<and> list_all P (rev (takeWhile P (rev xs)))"
proof -
  have "prefix (takeWhile P (rev xs)) (rev xs)" by (rule takeWhile_is_prefix)
  then have "suffix (rev (takeWhile P (rev xs))) xs" by (simp add: suffix_to_prefix)
  moreover have "list_all P (rev (takeWhile P (rev xs)))"
    by (simp add: list_all_iff) (meson set_takeWhileD)
  ultimately show ?thesis by blast
qed

lemma streak_current:
  "snd (foldl (streakStep bl) (0, 0) xs) = length (takeWhile (\<lambda>b. Some (tb_label b) = bl) (rev xs))"
  by (induction xs rule: rev_induct) (auto simp: streakStep_def split: prod.splits)

lemma streak_longest:
  "spec_longest_run (\<lambda>b. Some (tb_label b) = bl) xs (fst (foldl (streakStep bl) (0, 0) xs))"
proof (induction xs rule: rev_induct)
  case Nil
  then show ?case by (auto simp: spec_longest_run_def)
next
  case (snoc x xs)
  let ?P = "\<lambda>b. Some (tb_label b) = bl"
  let ?acc = "foldl (streakStep bl) (0, 0) xs"
  obtain l c where acc: "?acc = (l, c)" by (cases ?acc)
  have c: "c = length (takeWhile ?P (rev xs))" using streak_current[of bl xs] acc by simp
  from snoc acc have ex: "\<exists>seg. sublist seg xs \<and> list_all ?P seg \<and> length seg = l"
    and ub: "\<And>seg. sublist seg xs \<Longrightarrow> list_all ?P seg \<Longrightarrow> length seg \<le> l"
    by (auto simp: spec_longest_run_def)
  show ?case
  proof (cases "?P x")
    case False
    then have new: "foldl (streakStep bl) (0, 0) (xs @ [x]) = (l, 0)"
      by (simp add: acc streakStep_def)
    have "\<And>seg. sublist seg (xs @ [x]) \<Longrightarrow> list_all ?P seg \<Longrightarrow> length seg \<le> l"
    proof -
      fix seg assume s: "sublist seg (xs @ [x])" and a: "list_all ?P seg"
      show "length seg \<le> l"
      proof (cases "sublist seg xs")
        case True then show ?thesis using ub a by blast
      next
        case False
        with s have suf: "suffix seg (xs @ [x])" by (simp add: sublist_snoc)
        have "seg = []"
        proof (rule ccontr)
          assume "seg \<noteq> []"
          from suf obtain zs where "xs @ [x] = zs @ seg" by (auto simp: suffix_def)
          with \<open>seg \<noteq> []\<close> have "last seg = x" by (metis last_appendR last_snoc)
          moreover have "last seg \<in> set seg" using \<open>seg \<noteq> []\<close> by (rule last_in_set)
          ultimately have "?P x" using a by (auto simp: list_all_iff)
          with \<open>\<not> ?P x\<close> show False by blast
        qed
        then show ?thesis by simp
      qed
    qed
    moreover have "\<exists>seg. sublist seg (xs @ [x]) \<and> list_all ?P seg \<and> length seg = l"
      using ex by (metis sublist_snoc)
    ultimately show ?thesis unfolding spec_longest_run_def new fst_conv by blast
  next
    case True
    then have new: "foldl (streakStep bl) (0, 0) (xs @ [x]) = (max l (c + 1), c + 1)"
      by (simp add: acc streakStep_def)
    let ?tw = "rev (takeWhile ?P (rev xs))"
    have tw: "suffix ?tw xs" "list_all ?P ?tw" using takeWhile_rev_suffix[of ?P xs] by blast+
    have run: "sublist (?tw @ [x]) (xs @ [x]) \<and> list_all ?P (?tw @ [x]) \<and> length (?tw @ [x]) = c + 1"
    proof -
      from tw(1) have "suffix (?tw @ [x]) (xs @ [x])" by simp
      then have "sublist (?tw @ [x]) (xs @ [x])" by (rule suffix_imp_sublist)
      then show ?thesis using tw(2) True c by simp
    qed
    have ex': "\<exists>seg. sublist seg (xs @ [x]) \<and> list_all ?P seg \<and> length seg = max l (c + 1)"
    proof (cases "l \<ge> c + 1")
      case True
      then have "max l (c + 1) = l" by simp
      then show ?thesis using ex by (metis sublist_snoc)
    next
      case False
      then have "max l (c + 1) = c + 1" by simp
      then show ?thesis using run by metis
    qed
    have ub': "\<And>seg. sublist seg (xs @ [x]) \<Longrightarrow> list_all ?P seg \<Longrightarrow> length seg \<le> max l (c + 1)"
    proof -
      fix seg assume s: "sublist seg (xs @ [x])" and a: "list_all ?P seg"
      show "length seg \<le> max l (c + 1)"
      proof (cases "sublist seg xs")
        case True then show ?thesis using ub a by fastforce
      next
        case False
        with s have suf: "suffix seg (xs @ [x])" by (simp add: sublist_snoc)
        show ?thesis
        proof (cases "seg = []")
          case True then show ?thesis by simp
        next
          case False
          then obtain seg' y where seg: "seg = seg' @ [y]" by (metis rev_exhaust)
          from suf obtain zs where "xs @ [x] = zs @ seg" by (auto simp: suffix_def)
          then have "xs @ [x] = (zs @ seg') @ [y]" by (simp add: seg)
          then have "xs = zs @ seg'" by (simp only: append1_eq_conv)
          then have "suffix seg' xs" by (simp add: suffix_def)
          moreover have "list_all ?P seg'" using a seg by simp
          ultimately have "length seg' \<le> c" unfolding c by (rule suffix_all_le_takeWhile)
          then show ?thesis using seg by simp
        qed
      qed
    qed
    show ?thesis unfolding spec_longest_run_def new fst_conv using ex' ub' by blast
  qed
qed

lemma breakLabelOf_spec:
  "labels \<noteq> [] \<Longrightarrow> breakLabelOf labels = Some (spec_avoidanceLabel labels)"
  by (simp add: breakLabelOf_def spec_avoidanceLabel_def)

lemma streak_no_label:
  "fst (foldl (streakStep None) (0, 0) xs) = 0 \<and> snd (foldl (streakStep None) (0, 0) xs) = 0"
  by (induction xs rule: rev_induct) (auto simp: streakStep_def split: prod.splits)

lemma ex_streak_sorted:
  "map tb_label (sort_key tb_start (getWeekBlocks ex_weekStart 1700200000000 ex_streak))
     = [''Break'', ''Break'', ''Work'', ''Break'', ''Break'', ''Break'']"
  by code_simp

lemma ex_streak_weekly:
  "generateWeeklyInsights utcDay ex_weekStart 1700200000000 0 fresh_popup ex_streak = Inr ex_streak_insights"
  by code_simp

text \<open>
  Claim C6. The weekly insights are returned whenever all labels are plain, and when they
  are returned the streak is 0.25 times the length of
  the longest run of consecutive blocks, in the order sorted by start time, whose label is
  the avoidance label: Break if the label set has it, else Other if the label set has it,
  else the last label of the set (with an empty label set the streak is 0). For the sorted
  labels Break, Break, Work, Break, Break, Break under the default labels it is 0.75.
\<close>

theorem avoidance_streak:
  "((\<forall>l \<in> set (getLabels pm s) \<union> tb_label ` set (getWeekBlocks weekStartOf now s). plainLabel l) \<longrightarrow>
      (\<exists>w. generateWeeklyInsights toDateString weekStartOf now random pm s = Inr w)) \<and>
   (\<forall>w. generateWeeklyInsights toDateString weekStartOf now random pm s = Inr w \<longrightarrow>
      (getLabels pm s \<noteq> [] \<longrightarrow>
         (\<exists>n. wi_longestAvoidanceStreak w = 1 / 4 * of_nat n \<and>
              spec_longest_run (\<lambda>block. tb_label block = spec_avoidanceLabel (getLabels pm s))
                (sort_key tb_start (getWeekBlocks weekStartOf now s)) n)) \<and>
      (getLabels pm s = [] \<longrightarrow> wi_longestAvoidanceStreak w = 0))"
proof (intro conjI allI impI)
  assume "\<forall>l \<in> set (getLabels pm s) \<union> tb_label ` set (getWeekBlocks weekStartOf now s). plainLabel l"
  then show "\<exists>w. generateWeeklyInsights toDateString weekStartOf now random pm s = Inr w"
    by (rule weekly_returns)
next
  fix w
  assume r: "generateWeeklyInsights toDateString weekStartOf now random pm s = Inr w"
  let ?bl = "breakLabelOf (getLabels pm s)"
  let ?n = "fst (foldl (streakStep ?bl) (0, 0) (sort_key tb_start (getWeekBlocks weekStartOf now s)))"
  from r have "wi_longestAvoidanceStreak w = of_nat ?n * (1 / 4)"
    by (auto simp: generateWeeklyInsights_def Let_def split: sum.splits prod.splits)
  then have w: "wi_longestAvoidanceStreak w = 1 / 4 * of_nat ?n" by simp
  {
    assume ne: "getLabels pm s \<noteq> []"
    have "spec_longest_run (\<lambda>block. Some (tb_label block) = ?bl)
            (sort_key tb_start (getWeekBlocks weekStartOf now s)) ?n"
      by (rule streak_longest)
    then have "spec_longest_run (\<lambda>block. tb_label block = spec_avoidanceLabel (getLabels pm s))
            (sort_key tb_start (getWeekBlocks weekStartOf now s)) ?n"
      by (simp add: breakLabelOf_spec [OF ne])
    then show "\<exists>n. wi_longestAvoidanceStreak w = 1 / 4 * of_nat n \<and>
              spec_longest_run (\<lambda>block. tb_label block = spec_avoidanceLabel (getLabels pm s))
                (sort_key tb_start (getWeekBlocks weekStartOf now s)) n"
      using w by blast
  }
  {
    assume e: "getLabels pm s = []"
    then have "?bl = None" by (simp add: breakLabelOf_def)
    then have "?n = 0" using streak_no_label by simp
    then show "wi_longestAvoidanceStreak w = 0" using w by simp
  }
qed

theorem avoidance_streak_witness:
  "generateWeeklyInsights utcDay ex_weekStart 1700200000000 0 fresh_popup ex_streak = Inr ex_streak_insights \<and>
   map tb_label (sort_key tb_start (getWeekBlocks ex_weekStart 1700200000000 ex_streak))
     = [''Break'', ''Break'', ''Work'', ''Break'', ''Break'', ''Break''] \<and>
   wi_longestAvoidanceStreak ex_streak_insights = 3 / 4 \<and>
   spec_longest_run (\<lambda>block. tb_label block = ''Break'')
     (sort_key tb_start (getWeekBlocks ex_weekStart 1700200000000 ex_streak)) 3"
proof -
  have l: "getLabels fresh_popup ex_streak = initial_DEFAULT_LABELS"
    by (simp add: getLabels_def ex_streak_def installed_def fresh_popup_def)
  have a: "spec_avoidanceLabel initial_DEFAULT_LABELS = ''Break''"
    by (simp add: spec_avoidanceLabel_def initial_DEFAULT_LABELS_def)
  have ne: "initial_DEFAULT_LABELS \<noteq> []" by (simp add: initial_DEFAULT_LABELS_def)
  from avoidance_streak [of fresh_popup ex_streak ex_weekStart 1700200000000 utcDay 0]
    ex_streak_weekly l a ne
  obtain n where n: "wi_longestAvoidanceStreak ex_streak_insights = 1 / 4 * of_nat n"
    and r: "spec_longest_run (\<lambda>block. tb_label block = ''Break'')
              (sort_key tb_start (getWeekBlocks ex_weekStart 1700200000000 ex_streak)) n"
    by auto
  have v: "wi_longestAvoidanceStreak ex_streak_insights = 3 / 4" by (simp add: ex_streak_insights_def)
  from n v have "(of_nat n :: rat) = of_nat 3" by simp
  then have "n = 3" by (simp only: of_nat_eq_iff)
  then show ?thesis using r v ex_streak_weekly ex_streak_sorted by simp
qed

section \<open>The biggest mismatch of the week\<close>



end
